theory Spec2Isabelle
  imports Main "HOL-Library.AList"
begin

section \<open>Shared vocabulary\<close>

text \<open>
  The store throws plain \<open>Error\<close> objects that differ only in their message.  Each
  message of the source is one constructor here, named after the error taxonomy of the
  specification; the interpolated flavour, version or id is kept as an argument.
\<close>

datatype error =
    ConfigurationError
  | SchemaMissingError string
  | SchemaTooNewError string int
  | SchemaStaleError string int
  | AlreadyExistsError
  | StateError
  | ReadOnlyError
  | FlavourRequiredError
  | FlavourNotRegisteredError string
  | BlockIdUndefinedError
  | BlockNotFoundError string
  | ParentNotFoundError
  | AssertExistsError
  | TypeError
  | LengthExceededError
  | StructuralError

text \<open>
  JSON-like values stored under \<open>prop:*\<close> keys and in page descriptors, a rich-text
  handle, and, for the \<open>children\<close> property of a call, an array of block models.
\<close>

datatype jsval = JStr string | JNum int | JBool bool | JText | JModels "nat list"

fun falsy :: "jsval option \<Rightarrow> bool" where
  "falsy None = True"
| "falsy (Some (JStr s)) = (s = [])"
| "falsy (Some (JNum n)) = (n = 0)"
| "falsy (Some (JBool b)) = (\<not> b)"
| "falsy (Some JText) = False"
| "falsy (Some (JModels cs)) = False"

text \<open>
  A block model class: the registry stores the class itself, of which the store reads
  the static \<open>version\<close>.  \<open>ctor_name\<close> stands for the identity of the class.
\<close>

record block_ctor =
  ctor_name :: string
  version :: int

text \<open>
  JavaScript \<open>Map\<close>, \<open>Y.Map\<close> and plain objects are kept as association lists in
  insertion order: \<open>map_of\<close> is \<open>get\<close>, \<open>AList.update\<close> is \<open>set\<close> (an existing key keeps
  its place, a new key goes last), \<open>map fst\<close> is \<open>Object.keys\<close>.
  A JavaScript \<open>Set\<close> is a list without duplicates, in insertion order.
\<close>

definition set_add :: "'a \<Rightarrow> 'a list \<Rightarrow> 'a list" where
  "set_add x xs = (if x \<in> set xs then xs else xs @ [x])"

section \<open>Workspace metadata store\<close>

record pageMeta =
  pm_id :: string
  pm_title :: string
  pm_createDate :: int
  pm_ext :: "(string \<times> jsval) list"

datatype signal = PageAdded string | PageRemoved string | PagesUpdated | CommonFieldsUpdated

text \<open>
  \<open>emitted\<close> records the signals fired synchronously, in order; \<open>timers\<close> is the queue of
  callbacks handed to \<open>setTimeout\<close>, each of which emits the signal it holds when the
  scheduler runs it.
\<close>

record workspaceMeta =
  pages :: "pageMeta list"
  versions :: "(string \<times> int) list"
  prevPages :: "string list"
  emitted :: "signal list"
  timers :: "signal list"

type_synonym flavour_map = "(string \<times> block_ctor) list"

subsection \<open>Version ledger\<close>

definition writeVersion :: "flavour_map \<Rightarrow> workspaceMeta \<Rightarrow> workspaceMeta" where
  "writeVersion fm m =
     m\<lparr>versions := fold (\<lambda>(flavour, model) vs. AList.update flavour (version model) vs) fm (versions m)\<rparr>"

text \<open>
  \<open>editorVersion\<close> is \<open>workspace.flavourMap.get(dataFlavour)?.version\<close>; the test
  \<open>!editorVersion\<close> holds for \<open>undefined\<close> and for the number 0.
\<close>

definition editorVersion :: "flavour_map \<Rightarrow> string \<Rightarrow> int option" where
  "editorVersion fm dataFlavour = map_option version (map_of fm dataFlavour)"

fun validateEntries :: "flavour_map \<Rightarrow> (string \<times> int) list \<Rightarrow> error + unit" where
  "validateEntries fm [] = Inr ()"
| "validateEntries fm ((dataFlavour, dataVersion) # rest) =
     (case editorVersion fm dataFlavour of
        None \<Rightarrow> Inl (SchemaMissingError dataFlavour)
      | Some ev \<Rightarrow>
          if ev = 0 then Inl (SchemaMissingError dataFlavour)
          else if dataVersion > ev then Inl (SchemaTooNewError dataFlavour dataVersion)
          else if dataVersion < ev then Inl (SchemaStaleError dataFlavour dataVersion)
          else validateEntries fm rest)"

definition validateVersion :: "flavour_map \<Rightarrow> workspaceMeta \<Rightarrow> error + unit" where
  "validateVersion fm m =
     (if length (map fst (versions m)) = 0 then Inl ConfigurationError
      else validateEntries fm (versions m))"

text \<open>The first ledger entry, in key order, that the registry does not match exactly.\<close>

definition firstMismatch :: "flavour_map \<Rightarrow> (string \<times> int) list \<Rightarrow> (string \<times> int) option" where
  "firstMismatch fm vs = find (\<lambda>(f, v). editorVersion fm f \<noteq> Some v) vs"

definition versionsNonZero :: "flavour_map \<Rightarrow> bool" where
  "versionsNonZero fm = list_all (\<lambda>(f, c). version c \<noteq> 0) fm"

subsection \<open>Page index events\<close>

definition pageMetas :: "workspaceMeta \<Rightarrow> pageMeta list" where
  "pageMetas m = pages m"

definition addPageMeta :: "pageMeta \<Rightarrow> nat option \<Rightarrow> workspaceMeta \<Rightarrow> workspaceMeta" where
  "addPageMeta page index m =
     (case index of
        None \<Rightarrow> m\<lparr>pages := pages m @ [page]\<rparr>
      | Some i \<Rightarrow> m\<lparr>pages := take i (pages m) @ [page] @ drop i (pages m)\<rparr>)"

text \<open>
  \<open>_handlePageEvent\<close>.  Its call of \<open>doc.getMap\<close> for every descriptor only makes the
  container of that page reachable and is not kept in this state.
\<close>

definition handlePageEvent :: "workspaceMeta \<Rightarrow> workspaceMeta" where
  "handlePageEvent m =
     (let metas = pageMetas m;
          prev = prevPages m;
          m1 = fold (\<lambda>pageMeta s.
                 if pm_id pageMeta \<notin> set prev
                 then s\<lparr>timers := timers s @ [PageAdded (pm_id pageMeta)]\<rparr> else s) metas m;
          m2 = fold (\<lambda>prevPageId s.
                 if find (\<lambda>p. pm_id p = prevPageId) metas = None
                 then s\<lparr>emitted := emitted s @ [PageRemoved prevPageId]\<rparr> else s) prev m1;
          m3 = m2\<lparr>prevPages := fold (\<lambda>page ps. set_add (pm_id page) ps) metas []\<rparr>
      in m3\<lparr>emitted := emitted m3 @ [PagesUpdated]\<rparr>)"

definition handleCommonFieldsEvent :: "workspaceMeta \<Rightarrow> workspaceMeta" where
  "handleCommonFieldsEvent m = m\<lparr>emitted := emitted m @ [CommonFieldsUpdated]\<rparr>"

text \<open>
  What the observer reads of a change event: whether its target is the metadata map
  itself, the page index, or a container whose parent is the page index, and the keys
  that changed.
\<close>

datatype meta_target = TargetOrigin | TargetPages | TargetInPages | TargetElsewhere

record meta_event =
  target :: meta_target
  changed_keys :: "string list"

definition hasKey :: "meta_event \<Rightarrow> string \<Rightarrow> bool" where
  "hasKey e k = (target e = TargetOrigin \<and> k \<in> set (changed_keys e))"

definition touchesPages :: "meta_event \<Rightarrow> bool" where
  "touchesPages e = (target e = TargetPages \<or> target e = TargetInPages \<or> hasKey e ''pages'')"

definition handleEvents :: "meta_event list \<Rightarrow> workspaceMeta \<Rightarrow> workspaceMeta" where
  "handleEvents events m =
     fold (\<lambda>e s.
        if touchesPages e then handlePageEvent s
        else if hasKey e ''name'' \<or> hasKey e ''avatar'' then handleCommonFieldsEvent s
        else s) events m"

text \<open>The page-added and page-removed signals of a signal log, in order.\<close>

fun isPageSignal :: "signal \<Rightarrow> bool" where
  "isPageSignal (PageAdded i) = True"
| "isPageSignal (PageRemoved i) = True"
| "isPageSignal PagesUpdated = False"
| "isPageSignal CommonFieldsUpdated = False"

definition pageSignals :: "signal list \<Rightarrow> signal list" where
  "pageSignals xs = filter isPageSignal xs"

section \<open>Block tree store: state\<close>

text \<open>
  One block in the replicated map: the reserved \<open>sys:*\<close> keys and every other key
  (\<open>prop:*\<close>, \<open>meta:*\<close>) in \<open>other_fields\<close>.  \<open>sys_children\<close> is \<open>None\<close> when the key
  does not hold a \<open>Y.Array\<close>.
\<close>

record yblock =
  sys_id :: string
  sys_flavour :: string
  sys_children :: "string list option"
  other_fields :: "(string \<times> jsval) list"

text \<open>
  A block model object.  Modelled from the spec: the class \<open>BaseBlockModel\<close> is not
  among the sources; a block has an id, a flavour and an ordered list of children, and
  the store reads and writes \<open>children\<close>, \<open>childMap\<close> and \<open>dispose\<close> of it.
  Model objects live in \<open>models\<close>, the object store of the
  page, and are referred to by their position there, so that two references are the
  same object exactly when they are the same number.  An entry \<open>None\<close> of
  \<open>m_children\<close> is a hole or \<open>undefined\<close>.
\<close>

record block_model =
  m_id :: string
  m_flavour :: string
  m_children :: "nat option list"
  m_childMap :: "(string \<times> nat) list"
  m_disposed :: bool

datatype page_root = RootNull | RootModel nat | RootPair "nat option" nat

datatype key_action = KeyAdd | KeyUpdate | KeyDelete

text \<open>
  The change events the replicated document hands to the deep observer of the block
  map after a transaction: on the block map itself (with the action per key), on the
  map of the block stored under a key (with the keys changed), on the
  \<open>sys:children\<close> array of the block stored under a key, and on a text.
\<close>

datatype yevent =
    BlocksEvent "(string \<times> key_action) list"
  | BlockMapEvent string "string list"
  | ChildrenArrayEvent string

text \<open>
  The changes of the running transaction, from which the document builds the events:
  the keys of the block map that changed, the blocks whose map had keys changed, and
  the blocks whose \<open>sys:children\<close> array changed.
\<close>

record changes =
  topKeys :: "(string \<times> key_action) list"
  mapKeys :: "(string \<times> string list) list"
  arrayKeys :: "string list"

record page =
  yBlocks :: "(string \<times> yblock) list"
  blockMap :: "(string \<times> nat) list"
  models :: "block_model list"
  root_slot :: page_root
  synced :: bool
  observers :: nat
  readonly :: bool
  idGenerator :: "nat \<Rightarrow> string"
  idCalls :: nat
  inTransaction :: bool
  transactions :: nat
  pending :: changes
  consoleErrors :: nat

definition getBlockById :: "page \<Rightarrow> string \<Rightarrow> nat option" where
  "getBlockById p bid = (case map_of (blockMap p) bid of Some model \<Rightarrow> Some model | None \<Rightarrow> None)"

section \<open>Workspace\<close>

record workspace =
  flavourMap :: flavour_map
  meta :: workspaceMeta
  spaces :: "(string \<times> page) list"

text \<open>
  \<open>blockSchema\<close> is an object; \<open>map fst\<close> lists its keys and \<open>map_of\<close> reads a key.
\<close>

definition register :: "(string \<times> block_ctor) list \<Rightarrow> workspace \<Rightarrow> workspace" where
  "register blockSchema ws =
     ws\<lparr>flavourMap :=
        fold (\<lambda>key fm. case map_of blockSchema key of
                          Some ctor \<Rightarrow> AList.update key ctor fm
                        | None \<Rightarrow> fm)
             (map fst blockSchema) (flavourMap ws)\<rparr>"

definition hasPage :: "workspace \<Rightarrow> string \<Rightarrow> bool" where
  "hasPage ws pageId = (map_of (spaces ws) (''space:'' @ pageId) \<noteq> None)"

text \<open>
  \<open>createPage\<close> pushes one descriptor inside a transaction of the metadata store; the
  document then calls the deep observer of that store with the one event of the batch,
  on the page index.  \<open>now\<close> is the value of \<open>+new Date()\<close>.
\<close>

definition createPage :: "string \<Rightarrow> int \<Rightarrow> workspace \<Rightarrow> error + workspace" where
  "createPage pageId now ws =
     (if hasPage ws pageId then Inl AlreadyExistsError
      else Inr (ws\<lparr>meta :=
             handleEvents [\<lparr>target = TargetPages, changed_keys = []\<rparr>]
               (addPageMeta \<lparr>pm_id = pageId, pm_title = '''', pm_createDate = now, pm_ext = []\<rparr>
                  None (meta ws))\<rparr>))"

section \<open>Block tree store: the replicated containers\<close>

text \<open>
  The operations of the replicated array that the store calls.  An index outside the
  array is outside the contract of the primitive and is reported as
  \<open>LengthExceededError\<close>.
\<close>

definition yInsert :: "int \<Rightarrow> string list \<Rightarrow> string list \<Rightarrow> error + string list" where
  "yInsert index content ys =
     (if index < 0 \<or> index > int (length ys) then Inl LengthExceededError
      else Inr (take (nat index) ys @ content @ drop (nat index) ys))"

definition yDelete :: "int \<Rightarrow> nat \<Rightarrow> string list \<Rightarrow> error + string list" where
  "yDelete index len ys =
     (if index < 0 \<or> index + int len > int (length ys) then Inl LengthExceededError
      else Inr (take (nat index) ys @ drop (nat index + len) ys))"

text \<open>\<open>Array.prototype.findIndex\<close> and \<open>indexOf\<close>: the first position, or -1.\<close>

fun findIndex :: "('a \<Rightarrow> bool) \<Rightarrow> 'a list \<Rightarrow> int" where
  "findIndex P [] = -1"
| "findIndex P (x # xs) =
     (if P x then 0 else (let i = findIndex P xs in if i < 0 then -1 else i + 1))"

text \<open>Assignment \<open>xs[i] = v\<close> to a JavaScript array, which grows with holes.\<close>

definition jsSet :: "'a option list \<Rightarrow> nat \<Rightarrow> 'a option \<Rightarrow> 'a option list" where
  "jsSet xs i v =
     (if i < length xs then xs[i := v] else xs @ replicate (i - length xs) None @ [v])"

definition createChildMap :: "string list \<Rightarrow> (string \<times> nat) list" where
  "createChildMap yChildIds =
     fold (\<lambda>(child, index) m. AList.update child index m)
          (zip yChildIds [0..<length yChildIds]) []"

definition recordTop :: "string \<Rightarrow> key_action \<Rightarrow> page \<Rightarrow> page" where
  "recordTop k a p = p\<lparr>pending := (pending p)\<lparr>topKeys := AList.update k a (topKeys (pending p))\<rparr>\<rparr>"

definition recordMapKey :: "string \<Rightarrow> string \<Rightarrow> page \<Rightarrow> page" where
  "recordMapKey k field p =
     p\<lparr>pending := (pending p)\<lparr>mapKeys :=
        AList.update k (case map_of (mapKeys (pending p)) k of
                          None \<Rightarrow> [field] | Some fs \<Rightarrow> set_add field fs)
          (mapKeys (pending p))\<rparr>\<rparr>"

definition recordArray :: "string \<Rightarrow> page \<Rightarrow> page" where
  "recordArray k p = p\<lparr>pending := (pending p)\<lparr>arrayKeys := set_add k (arrayKeys (pending p))\<rparr>\<rparr>"

text \<open>
  The events of a committed transaction as the deep observer receives them: sorted by
  path length (block map, then block maps, then children arrays), without the events
  whose target has been deleted.
\<close>

definition eventsOf :: "page \<Rightarrow> yevent list" where
  "eventsOf p =
     (if topKeys (pending p) = [] then [] else [BlocksEvent (topKeys (pending p))])
     @ map (\<lambda>(k, fs). BlockMapEvent k fs)
         (filter (\<lambda>(k, fs). map_of (yBlocks p) k \<noteq> None) (mapKeys (pending p)))
     @ map ChildrenArrayEvent
         (filter (\<lambda>k. map_of (yBlocks p) k \<noteq> None) (arrayKeys (pending p)))"

definition noChanges :: changes where
  "noChanges = \<lparr>topKeys = [], mapKeys = [], arrayKeys = []\<rparr>"

section \<open>Block tree store: reading the tree\<close>

definition rootOf :: "page \<Rightarrow> nat option" where
  "rootOf p = (case root_slot p of RootNull \<Rightarrow> None | RootModel r \<Rightarrow> Some r | RootPair r s \<Rightarrow> r)"

text \<open>
  \<open>getParentById\<close> recurses along the child maps and does not return on a cyclic
  projection; the model counts the depth of the recursion down from \<open>fuel\<close> and answers
  \<open>None\<close> when it is used up.  \<open>Some None\<close> is the answer \<open>null\<close>.
\<close>

fun getParentById :: "nat \<Rightarrow> page \<Rightarrow> string \<Rightarrow> string \<Rightarrow> nat option option"
  and searchChildMap :: "nat \<Rightarrow> page \<Rightarrow> nat \<Rightarrow> string list \<Rightarrow> string \<Rightarrow> nat option option" where
  "getParentById 0 p rootId targetId = None"
| "getParentById (Suc fuel) p rootId targetId =
     (if rootId = targetId then Some None
      else case map_of (blockMap p) rootId of
        None \<Rightarrow> Some None
      | Some root \<Rightarrow> searchChildMap fuel p root (map fst (m_childMap (models p ! root))) targetId)"
| "searchChildMap fuel p root [] targetId = Some None"
| "searchChildMap fuel p root (childId # rest) targetId =
     (if childId = targetId then Some (Some root)
      else case getParentById fuel p childId targetId of
        None \<Rightarrow> None
      | Some (Some parent) \<Rightarrow> Some (Some parent)
      | Some None \<Rightarrow> searchChildMap fuel p root rest targetId)"

definition getParent :: "nat \<Rightarrow> page \<Rightarrow> nat \<Rightarrow> nat option option" where
  "getParent fuel p block =
     (case rootOf p of
        None \<Rightarrow> Some None
      | Some root \<Rightarrow> getParentById fuel p (m_id (models p ! root)) (m_id (models p ! block)))"

section \<open>Block tree store: reconciliation\<close>

text \<open>
  \<open>_createBlockModel\<close>.  The class registered for the flavour builds the model; the
  model carries the id it is given and the flavour it was looked up with, an empty
  children array and an empty child map.
\<close>

definition createBlockModel :: "flavour_map \<Rightarrow> string \<Rightarrow> string \<Rightarrow> error + block_model" where
  "createBlockModel fm flavour bid =
     (case map_of fm flavour of
        None \<Rightarrow> Inl (FlavourNotRegisteredError flavour)
      | Some BlockModelCtor \<Rightarrow>
          if bid = [] then Inl BlockIdUndefinedError
          else Inr \<lparr>m_id = bid, m_flavour = flavour, m_children = [], m_childMap = [],
                    m_disposed = False\<rparr>)"

definition updModel :: "nat \<Rightarrow> (block_model \<Rightarrow> block_model) \<Rightarrow> page \<Rightarrow> page" where
  "updModel r f p = p\<lparr>models := (models p)[r := f (models p ! r)]\<rparr>"

text \<open>
  A paragraph, list or code block without text gets a fresh text in a transaction of
  its own.  The one event of that transaction is a change of \<open>prop:text\<close> on the block's
  map, which \<open>_handleYBlockUpdate\<close> skips, so only the write and the transaction count
  remain.
\<close>

definition initText :: "string \<Rightarrow> page \<Rightarrow> page" where
  "initText bid p =
     (case map_of (yBlocks p) bid of
        None \<Rightarrow> p
      | Some yBlock \<Rightarrow>
          p\<lparr>yBlocks := AList.update bid
                (yBlock\<lparr>other_fields := AList.update ''prop:text'' JText (other_fields yBlock)\<rparr>)
                (yBlocks p),
            transactions := (if inTransaction p then transactions p else transactions p + 1)\<rparr>)"

definition needsText :: "string \<Rightarrow> yblock \<Rightarrow> bool" where
  "needsText flavour yBlock =
     (flavour \<in> set [''affine:paragraph'', ''affine:list'', ''affine:code'']
      \<and> falsy (map_of (other_fields yBlock) ''prop:text''))"

text \<open>
  \<open>_handleYBlockAdd\<close> with the loop over the children array as \<open>addChildren\<close>.  The
  recursion follows the replicated children lists, which a foreign document may make
  cyclic, so it is counted down from \<open>fuel\<close> like \<open>getParentById\<close>.  The result carries
  the visited set and the page as they are when the call returns or throws.
\<close>

fun handleYBlockAdd ::
    "nat \<Rightarrow> flavour_map \<Rightarrow> string \<Rightarrow> string list \<Rightarrow> page \<Rightarrow> (error + unit) option \<times> string list \<times> page"
  and addChildren ::
    "nat \<Rightarrow> flavour_map \<Rightarrow> nat \<Rightarrow> string list \<Rightarrow> string list \<Rightarrow> page \<Rightarrow> (error + unit) option \<times> string list \<times> page"
  where
  "handleYBlockAdd 0 fm bid visited p = (None, visited, p)"
| "handleYBlockAdd (Suc fuel) fm bid visited p =
     (case map_of (yBlocks p) bid of
        None \<Rightarrow> (Some (Inl (BlockNotFoundError bid)), visited, p)
      | Some yBlock \<Rightarrow>
         (let isRoot = (length (blockMap p) = 0) in
          case createBlockModel fm (sys_flavour yBlock) bid of
            Inl e \<Rightarrow> (Some (Inl e), visited, p)
          | Inr model \<Rightarrow>
             (let r = length (models p);
                  isSurface = (m_flavour model = ''affine:surface'');
                  p1 = p\<lparr>models := models p @ [model],
                         blockMap := AList.update (sys_id yBlock) r (blockMap p)\<rparr>;
                  p2 = (if needsText (m_flavour model) yBlock then initText bid p1 else p1);
                  (res, visited', p3) =
                     (case sys_children yBlock of
                        None \<Rightarrow> (Some (Inr ()), visited, p2)
                      | Some yChildren \<Rightarrow>
                          addChildren fuel fm r yChildren visited
                            (updModel r (\<lambda>m. m\<lparr>m_childMap := createChildMap yChildren\<rparr>) p2))
              in case res of
                   None \<Rightarrow> (None, visited', p3)
                 | Some (Inl e) \<Rightarrow> (Some (Inl e), visited', p3)
                 | Some (Inr u) \<Rightarrow>
                     if isRoot then (Some (Inr ()), visited', p3\<lparr>root_slot := RootModel r\<rparr>)
                     else if isSurface
                     then (Some (Inr ()), visited', p3\<lparr>root_slot := RootPair (rootOf p3) r\<rparr>)
                     else (case getParent fuel p3 r of
                             None \<Rightarrow> (None, visited', p3)
                           | Some None \<Rightarrow> (Some (Inr ()), visited', p3)
                           | Some (Some parent) \<Rightarrow>
                               (case map_of (m_childMap (models p3 ! parent)) (m_id (models p3 ! r)) of
                                  None \<Rightarrow> (Some (Inr ()), visited', p3)
                                | Some index \<Rightarrow>
                                    (Some (Inr ()), visited',
                                     updModel parent
                                       (\<lambda>m. m\<lparr>m_children := jsSet (m_children m) index (Some r)\<rparr>) p3))))))"
| "addChildren fuel fm r [] visited p = (Some (Inr ()), visited, p)"
| "addChildren fuel fm r (cid # rest) visited p =
     (case map_of (m_childMap (models p ! r)) cid of
        None \<Rightarrow> addChildren fuel fm r rest visited p
      | Some index \<Rightarrow>
         (let (res, visited1, p1) =
                (if map_of (blockMap p) cid = None
                 then handleYBlockAdd fuel fm cid (set_add cid visited) p
                 else (Some (Inr ()), visited, p))
          in case res of
               None \<Rightarrow> (None, visited1, p1)
             | Some (Inl e) \<Rightarrow> (Some (Inl e), visited1, p1)
             | Some (Inr u) \<Rightarrow>
                 addChildren fuel fm r rest visited1
                   (updModel r (\<lambda>m. m\<lparr>m_children :=
                        jsSet (m_children m) index (map_of (blockMap p1) cid)\<rparr>) p1)))"

definition handleYBlockDelete :: "string \<Rightarrow> page \<Rightarrow> page" where
  "handleYBlockDelete bid p = p\<lparr>blockMap := AList.delete bid (blockMap p)\<rparr>"

text \<open>
  \<open>_handleYBlockUpdate\<close> on the map of the block stored under \<open>key\<close>.  Of the changed
  keys only \<open>sys:children\<close> touches the state kept here; property keys are assigned to
  fields of the model that the projection does not keep.
\<close>

definition handleYBlockUpdate :: "string \<Rightarrow> string list \<Rightarrow> page \<Rightarrow> page" where
  "handleYBlockUpdate key keysChanged p =
     (case map_of (yBlocks p) key of
        None \<Rightarrow> p
      | Some yBlock \<Rightarrow>
         (case getBlockById p (sys_id yBlock) of
            None \<Rightarrow> p
          | Some model \<Rightarrow>
             fold (\<lambda>k q.
                if k = ''prop:text'' then q
                else if k = ''sys:children'' then
                  (case sys_children yBlock of
                     None \<Rightarrow> q\<lparr>consoleErrors := consoleErrors q + 1\<rparr>
                   | Some yChildren \<Rightarrow>
                       updModel model (\<lambda>m. m\<lparr>m_childMap := createChildMap yChildren,
                          m_children := map (\<lambda>c. map_of (blockMap q) c) yChildren\<rparr>) q)
                else q) keysChanged p))"

fun handleBlocksKeys ::
    "nat \<Rightarrow> flavour_map \<Rightarrow> (string \<times> key_action) list \<Rightarrow> string list \<Rightarrow> page \<Rightarrow> (error + unit) option \<times> page"
  where
  "handleBlocksKeys fuel fm [] visited p = (Some (Inr ()), p)"
| "handleBlocksKeys fuel fm ((bid, action) # rest) visited p =
     (case action of
        KeyAdd \<Rightarrow>
          if bid \<in> set visited then handleBlocksKeys fuel fm rest visited p
          else (case handleYBlockAdd fuel fm bid (set_add bid visited) p of
                  (Some (Inr u), visited', p') \<Rightarrow> handleBlocksKeys fuel fm rest visited' p'
                | (Some (Inl e), visited', p') \<Rightarrow> (Some (Inl e), p')
                | (None, visited', p') \<Rightarrow> (None, p'))
      | KeyDelete \<Rightarrow> handleBlocksKeys fuel fm rest visited (handleYBlockDelete bid p)
      | KeyUpdate \<Rightarrow> handleBlocksKeys fuel fm rest visited p)"

fun handleYEvent :: "nat \<Rightarrow> flavour_map \<Rightarrow> yevent \<Rightarrow> page \<Rightarrow> (error + unit) option \<times> page" where
  "handleYEvent fuel fm (BlocksEvent keys) p = handleBlocksKeys fuel fm keys [] p"
| "handleYEvent fuel fm (BlockMapEvent key keysChanged) p =
     (Some (Inr ()), handleYBlockUpdate key keysChanged p)"
| "handleYEvent fuel fm (ChildrenArrayEvent key) p =
     (case map_of (yBlocks p) key of
        None \<Rightarrow> (Some (Inr ()), p)
      | Some yBlock \<Rightarrow>
         (case map_of (blockMap p) (sys_id yBlock) of
            None \<Rightarrow> (Some (Inl (BlockNotFoundError (sys_id yBlock))), p)
          | Some model \<Rightarrow>
             (case sys_children yBlock of
                None \<Rightarrow> (Some (Inr ()), p)
              | Some childIds \<Rightarrow>
                  (Some (Inr ()),
                   updModel model (\<lambda>m. m\<lparr>m_children := map (\<lambda>c. map_of (blockMap p) c) childIds,
                      m_childMap := createChildMap childIds\<rparr>) p))))"

fun handleYEvents :: "nat \<Rightarrow> flavour_map \<Rightarrow> yevent list \<Rightarrow> page \<Rightarrow> (error + unit) option \<times> page" where
  "handleYEvents fuel fm [] p = (Some (Inr ()), p)"
| "handleYEvents fuel fm (event # events) p =
     (case handleYEvent fuel fm event p of
        (Some (Inr u), p') \<Rightarrow> handleYEvents fuel fm events p'
      | (r, p') \<Rightarrow> (r, p'))"

section \<open>Block tree store: transactions\<close>

text \<open>
  Every registered deep observer is called with the events, also after one of them has
  thrown; the call then fails with the error thrown last.
\<close>

fun dispatch :: "nat \<Rightarrow> nat \<Rightarrow> flavour_map \<Rightarrow> yevent list \<Rightarrow> page \<Rightarrow> (error + unit) option \<times> page" where
  "dispatch 0 fuel fm events p = (Some (Inr ()), p)"
| "dispatch (Suc k) fuel fm events p =
     (case handleYEvents fuel fm events p of
        (None, p1) \<Rightarrow> (None, p1)
      | (Some r1, p1) \<Rightarrow>
          (case dispatch k fuel fm events p1 of
             (Some (Inr u), p2) \<Rightarrow> (Some r1, p2)
           | (r2, p2) \<Rightarrow> (r2, p2)))"

text \<open>
  \<open>transact\<close>: a call inside a running transaction only runs its body.  An outermost
  call counts one transaction, runs the body, and commits what the body wrote, also
  when the body threw; the observers of the block map then receive the events of the
  transaction, if there are any, and what they throw reaches the caller.
\<close>

definition transact ::
    "nat \<Rightarrow> flavour_map \<Rightarrow> (page \<Rightarrow> (error + 'a) option \<times> page) \<Rightarrow> page \<Rightarrow> (error + 'a) option \<times> page"
  where
  "transact fuel fm body p =
     (if inTransaction p then body p
      else
        (let (r, p1) = body (p\<lparr>inTransaction := True, transactions := transactions p + 1\<rparr>);
             events = eventsOf p1;
             p2 = p1\<lparr>inTransaction := False, pending := noChanges\<rparr>;
             (d, p3) = (if events = [] then (Some (Inr ()), p2)
                        else dispatch (observers p2) fuel fm events p2)
         in case r of
              None \<Rightarrow> (None, p3)
            | Some r' \<Rightarrow>
                (case d of
                   None \<Rightarrow> (None, p3)
                 | Some (Inl e) \<Rightarrow> (Some (Inl e), p3)
                 | Some (Inr u) \<Rightarrow> (Some r', p3))))"

text \<open>Writes to the replicated containers, each recording the change it makes.\<close>

definition setBlock :: "string \<Rightarrow> yblock \<Rightarrow> page \<Rightarrow> page" where
  "setBlock bid yBlock p =
     recordTop bid (if map_of (yBlocks p) bid = None then KeyAdd else KeyUpdate)
       (p\<lparr>yBlocks := AList.update bid yBlock (yBlocks p)\<rparr>)"

definition deleteKey :: "string \<Rightarrow> page \<Rightarrow> page" where
  "deleteKey bid p =
     (if map_of (yBlocks p) bid = None then p
      else recordTop bid KeyDelete (p\<lparr>yBlocks := AList.delete bid (yBlocks p)\<rparr>))"

definition setChildren :: "string \<Rightarrow> string list \<Rightarrow> page \<Rightarrow> page" where
  "setChildren bid ys p =
     (case map_of (yBlocks p) bid of
        None \<Rightarrow> p
      | Some yBlock \<Rightarrow>
          recordArray bid (p\<lparr>yBlocks := AList.update bid (yBlock\<lparr>sys_children := Some ys\<rparr>) (yBlocks p)\<rparr>))"

text \<open>
  \<open>yParent.get('sys:children')\<close> of the block stored under an id, as the mutations read
  it: a missing block or a missing array makes the next member access a TypeError.
\<close>

definition childrenOf :: "page \<Rightarrow> string \<Rightarrow> error + string list" where
  "childrenOf p bid =
     (case map_of (yBlocks p) bid of
        None \<Rightarrow> Inl TypeError
      | Some yParent \<Rightarrow> (case sys_children yParent of None \<Rightarrow> Inl TypeError | Some ys \<Rightarrow> Inr ys))"

section \<open>Block tree store: mutations\<close>

text \<open>
  The property object of a call is a list of keys and values.  Its \<open>children\<close> entry, if
  there is one, is an array of block models, its \<open>text\<close> entry a text, \<open>id\<close> and \<open>flavour\<close>
  are strings.
\<close>

definition propString :: "(string \<times> jsval) list \<Rightarrow> string \<Rightarrow> string" where
  "propString props k = (case map_of props k of Some (JStr v) \<Rightarrow> v | other \<Rightarrow> [])"

definition propChildren :: "(string \<times> jsval) list \<Rightarrow> nat list option" where
  "propChildren props = (case map_of props ''children'' of Some (JModels cs) \<Rightarrow> Some cs | other \<Rightarrow> None)"

text \<open>
  Modelled from the spec: \<open>assertValidChildren\<close> belongs to the store's utilities, which
  are not among the sources.  The specification has \<open>addBlock\<close> validate the children
  constraints, and requires every id in a children list to be a key of the flat block
  map; a violation is a StructuralError.  The check throws inside the transaction,
  before anything is written.
\<close>

definition assertValidChildren :: "page \<Rightarrow> (string \<times> jsval) list \<Rightarrow> error option" where
  "assertValidChildren q props =
     (case propChildren props of
        None \<Rightarrow> None
      | Some cs \<Rightarrow>
          if list_all (\<lambda>c. map_of (yBlocks q) (m_id (models q ! c)) \<noteq> None) cs then None
          else Some StructuralError)"

text \<open>
  Modelled from the spec: \<open>initInternalProps\<close> belongs to the store's utilities, which are
  not among the sources.  It writes the \<open>sys:*\<close> fields of the specification's block
  layout: \<open>sys:id\<close>, \<open>sys:flavour\<close> and \<open>sys:children\<close>, the ordered list of the ids of the
  children given, empty when none are given.
\<close>

definition initInternalProps :: "page \<Rightarrow> (string \<times> jsval) list \<Rightarrow> yblock" where
  "initInternalProps q props =
     \<lparr>sys_id = propString props ''id'', sys_flavour = propString props ''flavour'',
      sys_children = Some (case propChildren props of
                             None \<Rightarrow> []
                           | Some cs \<Rightarrow> map (\<lambda>c. m_id (models q ! c)) cs),
      other_fields = []\<rparr>"

text \<open>
  Modelled from the spec: \<open>syncBlockProps\<close> belongs to the store's utilities, which are not
  among the sources.  It writes each property under \<open>prop:<name>\<close>.  The keys it leaves
  alone (\<open>_ignoredKeys\<close>, the keys of a bare block model) are taken to be \<open>id\<close>,
  \<open>flavour\<close>, \<open>children\<close> and \<open>text\<close>, which have fields of their own.
\<close>

definition syncBlockProps :: "(string \<times> jsval) list \<Rightarrow> (string \<times> jsval) list \<Rightarrow> (string \<times> jsval) list" where
  "syncBlockProps props fs =
     fold (\<lambda>(k, v) acc.
        if k \<in> set [''id'', ''flavour'', ''children'', ''text''] then acc
        else AList.update (''prop:'' @ k) v acc) props fs"

text \<open>
  Modelled from the spec: \<open>trySyncTextProp\<close> belongs to the store's utilities, which are
  not among the sources.  A text given with the call becomes the rich-text handle under
  \<open>prop:text\<close>; without one nothing is written.  The set of split texts it consults is
  not kept.
\<close>

definition trySyncTextProp :: "jsval option \<Rightarrow> (string \<times> jsval) list \<Rightarrow> (string \<times> jsval) list" where
  "trySyncTextProp text fs = (if falsy text then fs else AList.update ''prop:text'' JText fs)"

text \<open>\<open>clonedProps\<close>: the object \<open>{flavour, ...blockProps}\<close> with \<open>id\<close> assigned afterwards.\<close>

definition cloneProps :: "string \<Rightarrow> string \<Rightarrow> (string \<times> jsval) list \<Rightarrow> (string \<times> jsval) list" where
  "cloneProps bid flavour blockProps =
     AList.update ''id'' (JStr bid)
       (fold (\<lambda>(k, v) acc. AList.update k v acc) blockProps [(''flavour'', JStr flavour)])"

datatype parent_arg = ParentUndefined | ParentNull | ParentModel nat | ParentId string

text \<open>
  The parent id \<open>addBlockByFlavour\<close> resolves inside its transaction: a string is looked
  up in the model map and counts as undefined when it names no model; \<open>null\<close> means no
  parent; an undefined parent falls back to the root.
\<close>

definition resolveParentId :: "page \<Rightarrow> parent_arg \<Rightarrow> string option" where
  "resolveParentId q parent =
     (let parent' = (case parent of
                       ParentId s \<Rightarrow> (case map_of (blockMap q) s of
                                        Some r \<Rightarrow> ParentModel r | None \<Rightarrow> ParentUndefined)
                     | x \<Rightarrow> x)
      in case parent' of
           ParentNull \<Rightarrow> None
         | ParentModel r \<Rightarrow> Some (m_id (models q ! r))
         | x \<Rightarrow> map_option (\<lambda>r. m_id (models q ! r)) (rootOf q))"

definition addBlockTransaction ::
    "string \<Rightarrow> (string \<times> jsval) list \<Rightarrow> parent_arg \<Rightarrow> int option \<Rightarrow> page
       \<Rightarrow> (error + unit) option \<times> page" where
  "addBlockTransaction bid clonedProps parent parentIndex q =
     (case assertValidChildren q clonedProps of
        Some e \<Rightarrow> (Some (Inl e), q)
      | None \<Rightarrow>
         (let yBlock0 = initInternalProps q clonedProps;
              yBlock1 = yBlock0\<lparr>other_fields := syncBlockProps clonedProps (other_fields yBlock0)\<rparr>;
              yBlock = yBlock1\<lparr>other_fields :=
                         trySyncTextProp (map_of clonedProps ''text'') (other_fields yBlock1)\<rparr>;
              parentId = resolveParentId q parent
          in if parentId = None \<or> parentId = Some []
             then (Some (Inr ()), setBlock bid yBlock q)
             else (case childrenOf q (the parentId) of
                     Inl e \<Rightarrow> (Some (Inl e), q)
                   | Inr yChildren \<Rightarrow>
                      (case yInsert (case parentIndex of
                                       None \<Rightarrow> int (length yChildren) | Some i \<Rightarrow> i)
                              [bid] yChildren of
                         Inl e \<Rightarrow> (Some (Inl e), q)
                       | Inr ys \<Rightarrow>
                           (Some (Inr ()),
                            setBlock bid yBlock (setChildren (the parentId) ys q))))))"

definition addBlockByFlavour ::
    "nat \<Rightarrow> flavour_map \<Rightarrow> string \<Rightarrow> (string \<times> jsval) list \<Rightarrow> parent_arg \<Rightarrow> int option \<Rightarrow> page
       \<Rightarrow> (error + string) option \<times> page" where
  "addBlockByFlavour fuel fm flavour blockProps parent parentIndex p =
     (if readonly p then (Some (Inl ReadOnlyError), p)
      else if flavour = [] then (Some (Inl FlavourRequiredError), p)
      else
       (let bid = idGenerator p (idCalls p);
            p0 = p\<lparr>idCalls := idCalls p + 1\<rparr>;
            clonedProps = cloneProps bid flavour blockProps
        in case transact fuel fm (addBlockTransaction bid clonedProps parent parentIndex) p0 of
             (Some (Inr u), p') \<Rightarrow> (Some (Inr bid), p')
           | (Some (Inl e), p') \<Rightarrow> (Some (Inl e), p')
           | (None, p') \<Rightarrow> (None, p')))"

definition moveBlock ::
    "nat \<Rightarrow> flavour_map \<Rightarrow> nat \<Rightarrow> nat \<Rightarrow> bool \<Rightarrow> page \<Rightarrow> (error + unit) option \<times> page" where
  "moveBlock fuel fm model targetModel atTop p =
     (if readonly p then (Some (Inr ()), p\<lparr>consoleErrors := consoleErrors p + 1\<rparr>)
      else case getParent fuel p model of
        None \<Rightarrow> (None, p)
      | Some currentParentModel \<Rightarrow>
         (case getParent fuel p targetModel of
            None \<Rightarrow> (None, p)
          | Some nextParentModel \<Rightarrow>
             (case (currentParentModel, nextParentModel) of
                (Some cp, Some np) \<Rightarrow>
                  transact fuel fm (\<lambda>q.
                    case childrenOf q (m_id (models q ! cp)) of
                      Inl e \<Rightarrow> (Some (Inl e), q)
                    | Inr yChildrenA \<Rightarrow>
                       (let idx = findIndex (\<lambda>i. i = m_id (models q ! model)) yChildrenA in
                        case yDelete idx 1 yChildrenA of
                          Inl e \<Rightarrow> (Some (Inl e), q)
                        | Inr ya \<Rightarrow>
                           (let q1 = setChildren (m_id (models q ! cp)) ya q in
                            case childrenOf q1 (m_id (models q1 ! np)) of
                              Inl e \<Rightarrow> (Some (Inl e), q1)
                            | Inr yChildrenB \<Rightarrow>
                               (let nextIdx = findIndex (\<lambda>i. i = m_id (models q1 ! targetModel)) yChildrenB in
                                case yInsert (if atTop then nextIdx else nextIdx + 1)
                                       [m_id (models q1 ! model)] yChildrenB of
                                  Inl e \<Rightarrow> (Some (Inl e), q1)
                                | Inr yb \<Rightarrow>
                                    (Some (Inr ()), setChildren (m_id (models q1 ! np)) yb q1))))) p
              | other \<Rightarrow> (Some (Inl ParentNotFoundError), p))))"

text \<open>\<open>children.map(child => child.id)\<close>: reading the id of an undefined entry throws.\<close>

fun childIds :: "page \<Rightarrow> nat option list \<Rightarrow> error + string list" where
  "childIds p [] = Inr []"
| "childIds p (None # cs) = Inl TypeError"
| "childIds p (Some c # cs) =
     (case childIds p cs of Inl e \<Rightarrow> Inl e | Inr ids \<Rightarrow> Inr (m_id (models p ! c) # ids))"

text \<open>
  \<open>updateBlock\<close> with the properties it is given: an optional new children array and
  plain properties.  Text properties are not kept in this model.
\<close>

definition updateBlock ::
    "nat \<Rightarrow> flavour_map \<Rightarrow> nat option \<Rightarrow> nat option list option \<Rightarrow> (string \<times> jsval) list \<Rightarrow> page
       \<Rightarrow> (error + unit) option \<times> page" where
  "updateBlock fuel fm model children props p =
     (if readonly p then (Some (Inr ()), p\<lparr>consoleErrors := consoleErrors p + 1\<rparr>)
      else case model of
        None \<Rightarrow> (Some (Inl TypeError), p)
      | Some mr \<Rightarrow>
         (let bid = m_id (models p ! mr) in
          transact fuel fm (\<lambda>q.
            case (case children of
                    None \<Rightarrow> (Some (Inr ()), q)
                  | Some cs \<Rightarrow>
                     (case childIds q cs of
                        Inl e \<Rightarrow> (Some (Inl e), q)
                      | Inr ids \<Rightarrow>
                         (case map_of (yBlocks q) bid of
                            None \<Rightarrow> (Some (Inl TypeError), q)
                          | Some yBlock \<Rightarrow>
                              (Some (Inr ()),
                               recordMapKey bid ''sys:children''
                                 (q\<lparr>yBlocks := AList.update bid (yBlock\<lparr>sys_children := Some ids\<rparr>)
                                      (yBlocks q)\<rparr>))))) of
              (Some (Inr u), q1) \<Rightarrow>
                (if props = [] then (Some (Inr ()), q1)
                 else case map_of (yBlocks q1) bid of
                   None \<Rightarrow> (Some (Inl TypeError), q1)
                 | Some yBlock \<Rightarrow>
                     (Some (Inr ()),
                      fold (\<lambda>(k, v) s. recordMapKey bid (''prop:'' @ k) s) props
                        (q1\<lparr>yBlocks := AList.update bid
                             (yBlock\<lparr>other_fields := syncBlockProps props (other_fields yBlock)\<rparr>)
                             (yBlocks q1)\<rparr>)))
            | (r, q1) \<Rightarrow> (r, q1)) p))"

definition updateBlockById ::
    "nat \<Rightarrow> flavour_map \<Rightarrow> string \<Rightarrow> nat option list option \<Rightarrow> (string \<times> jsval) list \<Rightarrow> page
       \<Rightarrow> (error + unit) option \<times> page" where
  "updateBlockById fuel fm bid children props p =
     (if readonly p then (Some (Inr ()), p\<lparr>consoleErrors := consoleErrors p + 1\<rparr>)
      else updateBlock fuel fm (map_of (blockMap p) bid) children props p)"

datatype bring_to = BringToParent | BringToBlock nat

definition removeAt :: "nat \<Rightarrow> 'a list \<Rightarrow> 'a list" where
  "removeAt i xs = take i xs @ drop (Suc i) xs"

text \<open>
  \<open>deleteBlock\<close> first rearranges the model objects (\<open>detachModel\<close>), then runs one
  transaction on the replicated containers (\<open>deleteBlockTransaction\<close>).
\<close>

definition detachModel :: "nat \<Rightarrow> nat option \<Rightarrow> int \<Rightarrow> bring_to \<Rightarrow> page \<Rightarrow> page" where
  "detachModel model parent index bringChildrenTo p =
     (let p1 = (case parent of
                  None \<Rightarrow> p
                | Some pr \<Rightarrow>
                    if index > -1
                    then updModel pr (\<lambda>m. m\<lparr>m_children := removeAt (nat index) (m_children m)\<rparr>) p
                    else p);
          p2 = (case bringChildrenTo of
                  BringToParent \<Rightarrow>
                    (case parent of
                       None \<Rightarrow> p1
                     | Some pr \<Rightarrow>
                         updModel pr (\<lambda>m. m\<lparr>m_children :=
                            m_children (models p1 ! model) @ m_children m\<rparr>) p1)
                | BringToBlock t \<Rightarrow>
                    updModel t (\<lambda>m. m\<lparr>m_children :=
                       m_children (models p1 ! model) @ m_children m\<rparr>) p1)
      in p2\<lparr>blockMap := AList.delete (m_id (models p2 ! model)) (blockMap p2)\<rparr>)"

definition deleteBlockTransaction ::
    "nat \<Rightarrow> flavour_map \<Rightarrow> nat \<Rightarrow> nat option \<Rightarrow> int \<Rightarrow> bring_to \<Rightarrow> page
       \<Rightarrow> (error + unit) option \<times> page" where
  "deleteBlockTransaction fuel fm model parent index bringChildrenTo q =
     (let q1 = deleteKey (m_id (models q ! model)) q in
      case childIds q1 (m_children (models q1 ! model)) of
        Inl e \<Rightarrow> (Some (Inl e), q1)
      | Inr children \<Rightarrow>
         (let q2 = updModel model (\<lambda>m. m\<lparr>m_disposed := True\<rparr>) q1 in
          case parent of
            None \<Rightarrow> (Some (Inr ()), q2)
          | Some pr \<Rightarrow>
             (let pid = m_id (models q2 ! pr) in
              case map_of (yBlocks q2) pid of
                None \<Rightarrow> (Some (Inl TypeError), q2)
              | Some yParent \<Rightarrow>
                 (case (if index > -1
                        then (case sys_children yParent of
                                None \<Rightarrow> Inl TypeError
                              | Some yChildren \<Rightarrow>
                                 (case yDelete index 1 yChildren of
                                    Inl e \<Rightarrow> Inl e
                                  | Inr ys \<Rightarrow> Inr (setChildren pid ys q2)))
                        else Inr q2) of
                    Inl e \<Rightarrow> (Some (Inl e), q2)
                  | Inr q3 \<Rightarrow>
                     (case bringChildrenTo of
                        BringToParent \<Rightarrow>
                          (case childrenOf q3 pid of
                             Inl e \<Rightarrow> (Some (Inl e), q3)
                           | Inr yChildren \<Rightarrow>
                              (case yInsert 0 children yChildren of
                                 Inl e \<Rightarrow> (Some (Inl e), q3)
                               | Inr ys \<Rightarrow>
                                  (Some (Inr ()),
                                   if children = [] then q3 else setChildren pid ys q3)))
                      | BringToBlock t \<Rightarrow>
                          updateBlockById fuel fm (m_id (models q3 ! t))
                            (Some (m_children (models q3 ! t))) [] q3)))))"

definition deleteBlock ::
    "nat \<Rightarrow> flavour_map \<Rightarrow> nat \<Rightarrow> bring_to \<Rightarrow> page \<Rightarrow> (error + unit) option \<times> page" where
  "deleteBlock fuel fm model bringChildrenTo p =
     (if readonly p then (Some (Inr ()), p\<lparr>consoleErrors := consoleErrors p + 1\<rparr>)
      else case getParent fuel p model of
        None \<Rightarrow> (None, p)
      | Some parent \<Rightarrow>
         (let index = (case parent of
                         None \<Rightarrow> -1
                       | Some pr \<Rightarrow> findIndex (\<lambda>c. c = Some model) (m_children (models p ! pr)))
          in transact fuel fm (deleteBlockTransaction fuel fm model parent index bringChildrenTo)
               (detachModel model parent index bringChildrenTo p)))"

definition deleteBlockById :: "nat \<Rightarrow> flavour_map \<Rightarrow> string \<Rightarrow> page \<Rightarrow> (error + unit) option \<times> page" where
  "deleteBlockById fuel fm bid p =
     (if readonly p then (Some (Inr ()), p\<lparr>consoleErrors := consoleErrors p + 1\<rparr>)
      else case map_of (blockMap p) bid of
        None \<Rightarrow> (Some (Inl TypeError), p)
      | Some model \<Rightarrow> deleteBlock fuel fm model BringToParent p)"

text \<open>
  \<open>insertBlock\<close> receives the flavour and the \<open>type\<close> of \<open>blockProps\<close>, either of which
  may be undefined.
\<close>

definition insertBlock ::
    "nat \<Rightarrow> flavour_map \<Rightarrow> string option \<Rightarrow> jsval option \<Rightarrow> nat \<Rightarrow> bool \<Rightarrow> page
       \<Rightarrow> (error + unit) option \<times> page" where
  "insertBlock fuel fm flavour typeProp targetModel atTop p =
     (case getParent fuel p targetModel of
        None \<Rightarrow> (None, p)
      | Some None \<Rightarrow> (Some (Inl ParentNotFoundError), p)
      | Some (Some targetParentModel) \<Rightarrow>
          transact fuel fm (\<lambda>q.
            case childrenOf q (m_id (models q ! targetParentModel)) of
              Inl e \<Rightarrow> (Some (Inl e), q)
            | Inr yChildren \<Rightarrow>
               (let targetIdx = findIndex (\<lambda>i. i = m_id (models q ! targetModel)) yChildren in
                case flavour of
                  None \<Rightarrow> (Some (Inl AssertExistsError), q)
                | Some fl \<Rightarrow>
                   (case addBlockByFlavour fuel fm fl
                           (case typeProp of None \<Rightarrow> [] | Some v \<Rightarrow> [(''type'', v)])
                           (ParentId (m_id (models q ! targetParentModel)))
                           (Some (if atTop then targetIdx else targetIdx + 1)) q of
                      (Some (Inr bid), q') \<Rightarrow> (Some (Inr ()), q')
                    | (Some (Inl e), q') \<Rightarrow> (Some (Inl e), q')
                    | (None, q') \<Rightarrow> (None, q')))) p)"

section \<open>Block tree store: initial synchronisation\<close>

definition handleVersion :: "flavour_map \<Rightarrow> workspaceMeta \<Rightarrow> page \<Rightarrow> error + workspaceMeta" where
  "handleVersion fm m p =
     (if length (yBlocks p) = 0 then Inr (writeVersion fm m)
      else case validateVersion fm m of Inl e \<Rightarrow> Inl e | Inr u \<Rightarrow> Inr m)"

text \<open>
  \<open>_initYBlocks\<close> registers the deep observer once more; the undo manager it creates is
  an external collaborator and is not kept.
\<close>

definition initYBlocks :: "page \<Rightarrow> page" where
  "initYBlocks p = p\<lparr>observers := observers p + 1\<rparr>"

fun syncBlocks ::
    "nat \<Rightarrow> flavour_map \<Rightarrow> string list \<Rightarrow> string list \<Rightarrow> page \<Rightarrow> (error + unit) option \<times> page" where
  "syncBlocks fuel fm [] visited p = (Some (Inr ()), p)"
| "syncBlocks fuel fm (bid # rest) visited p =
     (if bid \<in> set visited then syncBlocks fuel fm rest visited p
      else (case handleYBlockAdd fuel fm bid (set_add bid visited) p of
              (Some (Inr u), visited', p') \<Rightarrow> syncBlocks fuel fm rest visited' p'
            | (Some (Inl e), visited', p') \<Rightarrow> (Some (Inl e), p')
            | (None, visited', p') \<Rightarrow> (None, p')))"

text \<open>
  \<open>syncFromExistingDoc\<close>.  The migration step belongs to a module that is not among
  the sources; it is the parameter \<open>tryMigrate\<close>, acting on the block map.  The call
  reads the flavour registry and reads or stamps the version ledger of the workspace,
  so the metadata store is passed in and returned.
\<close>

definition syncFromExistingDoc ::
    "nat \<Rightarrow> ((string \<times> yblock) list \<Rightarrow> (string \<times> yblock) list) \<Rightarrow> flavour_map \<Rightarrow> workspaceMeta \<Rightarrow> page
       \<Rightarrow> (error + unit) option \<times> workspaceMeta \<times> page" where
  "syncFromExistingDoc fuel tryMigrate fm m p =
     (if synced p then (Some (Inl StateError), m, p)
      else
       (let p0 = p\<lparr>yBlocks := tryMigrate (yBlocks p)\<rparr> in
        case handleVersion fm m p0 of
          Inl e \<Rightarrow> (Some (Inl e), m, p0)
        | Inr m' \<Rightarrow>
           (case syncBlocks fuel fm (map fst (yBlocks p0)) [] (initYBlocks p0) of
              (Some (Inr u), p') \<Rightarrow> (Some (Inr ()), m', p'\<lparr>synced := True\<rparr>)
            | (r, p') \<Rightarrow> (r, m', p'))))"

section \<open>Well-formedness conditions used by the properties\<close>

text \<open>
  A store is idle when no transaction is running and no change is waiting for its
  events.
\<close>

definition idle :: "page \<Rightarrow> bool" where
  "idle p = (\<not> inTransaction p \<and> pending p = noChanges)"

text \<open>
  The block stored under a key, if there is one, names a block that has a model: the
  observer of a change of its children array then finds the model to update.
\<close>

definition hasModel :: "page \<Rightarrow> string \<Rightarrow> bool" where
  "hasModel p k =
     (case map_of (yBlocks p) k of
        None \<Rightarrow> True
      | Some yBlock \<Rightarrow> map_of (blockMap p) (sys_id yBlock) \<noteq> None)"

text \<open>Two states of a store that differ at most in the model objects.\<close>

definition sameButModels :: "page \<Rightarrow> page \<Rightarrow> bool" where
  "sameButModels p p' = (p' = p\<lparr>models := models p'\<rparr>)"

text \<open>
  The changes waiting in a store need no model to be built: no key of the block map was
  added, a deleted key has no model left, no block map changed, and every block whose
  children array changed has a model.
\<close>

definition quietKeys :: "page \<Rightarrow> bool" where
  "quietKeys q = (mapKeys (pending q) = [] \<and>
     (\<forall>(k, a)\<in>set (topKeys (pending q)). a \<noteq> KeyAdd \<and> (a = KeyDelete \<longrightarrow> k \<notin> fst ` set (blockMap q))) \<and>
     (\<forall>k\<in>set (arrayKeys (pending q)). hasModel q k))"

text \<open>The block stored under a key, if there is one, carries that key as its id.\<close>

definition ownId :: "page \<Rightarrow> string \<Rightarrow> bool" where
  "ownId p k = (case map_of (yBlocks p) k of None \<Rightarrow> True | Some yBlock \<Rightarrow> sys_id yBlock = k)"

section \<open>Example data\<close>

definition ctorX1 :: block_ctor where
  "ctorX1 = \<lparr>ctor_name = ''X'', version = 1\<rparr>"

definition ledgerMeta :: "(string \<times> int) list \<Rightarrow> workspaceMeta" where
  "ledgerMeta vs = \<lparr>pages = [], versions = vs, prevPages = [], emitted = [], timers = []\<rparr>"

definition ctorX2 :: block_ctor where
  "ctorX2 = \<lparr>ctor_name = ''X-revised'', version = 2\<rparr>"

definition descriptor :: "string \<Rightarrow> pageMeta" where
  "descriptor i = \<lparr>pm_id = i, pm_title = '''', pm_createDate = 0, pm_ext = []\<rparr>"

definition indexMeta :: "pageMeta list \<Rightarrow> string list \<Rightarrow> workspaceMeta" where
  "indexMeta ps prev = \<lparr>pages = ps, versions = [], prevPages = prev, emitted = [], timers = []\<rparr>"

definition pagesEvent :: meta_event where
  "pagesEvent = \<lparr>target = TargetPages, changed_keys = []\<rparr>"

definition emptyWorkspace :: workspace where
  "emptyWorkspace = \<lparr>flavourMap = [], meta = indexMeta [] [], spaces = []\<rparr>"

text \<open>The auto-increment id generator of the tests: call \<open>n\<close> returns the decimal of \<open>n\<close>.\<close>

fun autoIncrement :: "nat \<Rightarrow> string" where
  "autoIncrement n =
     (if n < 10 then [char_of (48 + n)]
      else autoIncrement (n div 10) @ [char_of (48 + n mod 10)])"

declare autoIncrement.simps [simp del]

definition freshPage :: page where
  "freshPage = \<lparr>yBlocks = [], blockMap = [], models = [], root_slot = RootNull, synced = False,
     observers = 0, readonly = False, idGenerator = autoIncrement, idCalls = 0,
     inTransaction = False, transactions = 0,
     pending = \<lparr>topKeys = [], mapKeys = [], arrayKeys = []\<rparr>, consoleErrors = 0\<rparr>"

definition affineRegistry :: flavour_map where
  "affineRegistry =
     [(''affine:page'', \<lparr>ctor_name = ''PageBlockModel'', version = 1\<rparr>),
      (''affine:paragraph'', \<lparr>ctor_name = ''ParagraphBlockModel'', version = 1\<rparr>)]"

definition affineLedger :: workspaceMeta where
  "affineLedger = ledgerMeta [(''affine:page'', 1), (''affine:paragraph'', 1)]"

definition pageBlock :: "string list \<Rightarrow> yblock" where
  "pageBlock cs = \<lparr>sys_id = ''0'', sys_flavour = ''affine:page'', sys_children = Some cs,
     other_fields = []\<rparr>"

definition paragraphBlock :: "string \<Rightarrow> string list \<Rightarrow> yblock" where
  "paragraphBlock i cs = \<lparr>sys_id = i, sys_flavour = ''affine:paragraph'', sys_children = Some cs,
     other_fields = [(''prop:text'', JText)]\<rparr>"

text \<open>A stored document: a root page block with one paragraph.\<close>

definition storedPage :: page where
  "storedPage = freshPage\<lparr>yBlocks := [(''0'', pageBlock [''1'']), (''1'', paragraphBlock ''1'' [])]\<rparr>"

text \<open>The stored document after synchronisation, and the same store in read-only mode.\<close>

definition syncedPage :: page where
  "syncedPage = storedPage\<lparr>blockMap := [(''0'', 0), (''1'', 1)],
     models := [\<lparr>m_id = ''0'', m_flavour = ''affine:page'', m_children = [Some 1],
                  m_childMap = [(''1'', 0)], m_disposed = False\<rparr>,
                \<lparr>m_id = ''1'', m_flavour = ''affine:paragraph'', m_children = [],
                  m_childMap = [], m_disposed = False\<rparr>],
     root_slot := RootModel 0, synced := True, observers := 1\<rparr>"

definition readonlyPage :: page where
  "readonlyPage = syncedPage\<lparr>readonly := True\<rparr>"

text \<open>
  A larger stored document, root \<open>0\<close> with children \<open>1\<close>, \<open>2\<close>, \<open>3\<close>, of which \<open>2\<close> has
  children \<open>4\<close> and \<open>5\<close>, and the store after its synchronisation; the id generator has
  handed out six ids.
\<close>

definition treeDoc :: page where
  "treeDoc = freshPage\<lparr>yBlocks :=
      [(''0'', pageBlock [''1'', ''2'', ''3'']), (''1'', paragraphBlock ''1'' []),
       (''2'', paragraphBlock ''2'' [''4'', ''5'']), (''3'', paragraphBlock ''3'' []),
       (''4'', paragraphBlock ''4'' []), (''5'', paragraphBlock ''5'' [])],
     idCalls := 6\<rparr>"

definition leafModel :: "string \<Rightarrow> block_model" where
  "leafModel i = \<lparr>m_id = i, m_flavour = ''affine:paragraph'', m_children = [], m_childMap = [],
     m_disposed = False\<rparr>"

definition treePage :: page where
  "treePage = treeDoc\<lparr>
     blockMap := [(''0'', 0), (''1'', 1), (''2'', 2), (''4'', 3), (''5'', 4), (''3'', 5)],
     models := [\<lparr>m_id = ''0'', m_flavour = ''affine:page'', m_children = [Some 1, Some 2, Some 5],
                  m_childMap = [(''1'', 0), (''2'', 1), (''3'', 2)], m_disposed = False\<rparr>,
                leafModel ''1'',
                \<lparr>m_id = ''2'', m_flavour = ''affine:paragraph'', m_children = [Some 3, Some 4],
                  m_childMap = [(''4'', 0), (''5'', 1)], m_disposed = False\<rparr>,
                leafModel ''4'', leafModel ''5'', leafModel ''3''],
     root_slot := RootModel 0, synced := True, observers := 1\<rparr>"

definition readonlyTree :: page where
  "readonlyTree = treePage\<lparr>readonly := True\<rparr>"

text \<open>
  The tree store after a call of \<open>addBlockByFlavour\<close> that failed: a block of the
  unregistered flavour \<open>affine:embed\<close> was to be put at the front of the root.
\<close>

definition staleTree :: page where
  "staleTree = snd (addBlockByFlavour (Suc (Suc (Suc 0))) affineRegistry ''affine:embed'' []
                      ParentUndefined (Some 0) treePage)"

section \<open>Verified properties\<close>

subsection \<open>Version validation\<close>

lemma validateEntries_firstMismatch:
  assumes "versionsNonZero fm"
  shows "validateEntries fm vs =
     (case firstMismatch fm vs of
        None \<Rightarrow> Inr ()
      | Some (f, v) \<Rightarrow>
          (case map_of fm f of
             None \<Rightarrow> Inl (SchemaMissingError f)
           | Some c \<Rightarrow> if v > version c then Inl (SchemaTooNewError f v)
                       else Inl (SchemaStaleError f v)))"
proof (induction vs)
  case Nil
  show ?case by (simp add: firstMismatch_def)
next
  case (Cons p vs)
  obtain f v where p: "p = (f, v)" by (cases p)
  have nz: "\<And>c. map_of fm f = Some c \<Longrightarrow> version c \<noteq> 0"
    using assms by (auto simp: versionsNonZero_def list_all_iff dest!: map_of_SomeD)
  show ?case
  proof (cases "map_of fm f")
    case None
    then show ?thesis by (simp add: p firstMismatch_def editorVersion_def)
  next
    case (Some c)
    with nz have "version c \<noteq> 0" by simp
    with Some Cons.IH show ?thesis
      by (auto simp: p firstMismatch_def editorVersion_def)
  qed
qed

text \<open>
  C1 (as amended).  With every registered version non-zero, \<open>validateVersion\<close> has
  exactly one outcome, fixed by the ledger alone when it is empty and otherwise by the
  first ledger entry, in key order, whose version the registry does not match: an empty
  ledger is a ConfigurationError; a first mismatching flavour without registry entry is
  a SchemaMissingError; one with a ledger version above the registry version is a
  SchemaTooNewError; one below it a SchemaStaleError; and with no mismatching entry the
  call succeeds silently.
\<close>

theorem validateVersion_outcome:
  assumes "versionsNonZero fm"
  shows "validateVersion fm m =
     (if versions m = [] then Inl ConfigurationError
      else case firstMismatch fm (versions m) of
        None \<Rightarrow> Inr ()
      | Some (f, v) \<Rightarrow>
          (case map_of fm f of
             None \<Rightarrow> Inl (SchemaMissingError f)
           | Some c \<Rightarrow> if v > version c then Inl (SchemaTooNewError f v)
                       else Inl (SchemaStaleError f v)))"
  using validateEntries_firstMismatch [OF assms, of "versions m"]
  by (simp add: validateVersion_def)

theorem validateVersion_outcome_witness:
  "versionsNonZero [(''X'', ctorX1)] \<and>
   validateVersion [(''X'', ctorX1)] (ledgerMeta [(''X'', 2)]) = Inl (SchemaTooNewError ''X'' 2)"
  using validateVersion_outcome [of "[(''X'', ctorX1)]" "ledgerMeta [(''X'', 2)]"]
  by (simp add: versionsNonZero_def ctorX1_def ledgerMeta_def firstMismatch_def editorVersion_def)

text \<open>
  The claim as first stated asks for a SchemaMissingError whenever some ledger flavour
  has no registry entry.  Here flavour \<open>b\<close> has none, yet the entry for \<open>X\<close>, which comes
  first and is too new, decides the outcome.
\<close>

theorem validateVersion_missing_counterexample:
  "map_of [(''X'', ctorX1)] ''b'' = None \<and>
   validateVersion [(''X'', ctorX1)] (ledgerMeta [(''X'', 2), (''b'', 1)])
     = Inl (SchemaTooNewError ''X'' 2)"
  by (simp add: validateVersion_def ledgerMeta_def editorVersion_def ctorX1_def)

subsection \<open>Flavour registration\<close>

lemma register_fold_lookup:
  "map_of (fold (\<lambda>key fm. case map_of s key of Some ctor \<Rightarrow> AList.update key ctor fm | None \<Rightarrow> fm) ks fm0) k
     = (if k \<in> set ks \<and> map_of s k \<noteq> None then map_of s k else map_of fm0 k)"
  by (induction ks arbitrary: fm0) (auto simp: update_conv' split: option.splits)

lemma register_lookup:
  "map_of (flavourMap (register s ws)) k
     = (case map_of s k of Some c \<Rightarrow> Some c | None \<Rightarrow> map_of (flavourMap ws) k)"
  by (auto simp: register_def register_fold_lookup split: option.splits dest: map_of_SomeD
       simp: rev_image_eqI)

text \<open>
  C7.  After two successive registrations that both bind flavour name \<open>k\<close>, the registry
  maps \<open>k\<close> to the constructor of the later registration; \<open>register\<close> has no failing
  branch.  A name that a registration does not bind keeps the binding it had.
\<close>

theorem register_last_write_wins:
  "(map_of s1 k = Some c1 \<and> map_of s2 k = Some c2 \<longrightarrow>
      map_of (flavourMap (register s2 (register s1 ws))) k = Some c2) \<and>
   (map_of s2 k = None \<longrightarrow>
      map_of (flavourMap (register s2 ws)) k = map_of (flavourMap ws) k)"
  by (simp add: register_lookup)

theorem register_last_write_wins_witness:
  "map_of [(''X'', ctorX1)] ''X'' = Some ctorX1 \<and> map_of [(''X'', ctorX2)] ''X'' = Some ctorX2 \<and>
   map_of (flavourMap (register [(''X'', ctorX2)] (register [(''X'', ctorX1)] emptyWorkspace))) ''X''
     = Some ctorX2 \<and>
   map_of [(''X'', ctorX2)] ''Y'' = None \<and>
   map_of (flavourMap (register [(''X'', ctorX2)] (register [(''Y'', ctorX1)] emptyWorkspace))) ''Y''
     = Some ctorX1"
  using register_last_write_wins [of "[(''X'', ctorX1)]" "''X''" ctorX1 "[(''X'', ctorX2)]" ctorX2 emptyWorkspace]
    register_last_write_wins [of "[]" "''Y''" ctorX1 "[(''X'', ctorX2)]" ctorX2
       "register [(''Y'', ctorX1)] emptyWorkspace"]
  by (simp add: register_def emptyWorkspace_def)

subsection \<open>Page index signals\<close>

lemma fold_timers_versions:
  "versions (fold (\<lambda>pageMeta s. if pm_id pageMeta \<notin> P
        then s\<lparr>timers := timers s @ [PageAdded (pm_id pageMeta)]\<rparr> else s) metas m) = versions m"
  by (induction metas arbitrary: m) auto

lemma fold_emitted_versions:
  "versions (fold (\<lambda>prevPageId s. if Q prevPageId
        then s\<lparr>emitted := emitted s @ [PageRemoved prevPageId]\<rparr> else s) prev m) = versions m"
  by (induction prev arbitrary: m) auto

lemma fold_timers:
  "timers (fold (\<lambda>pageMeta s. if pm_id pageMeta \<notin> P
        then s\<lparr>timers := timers s @ [PageAdded (pm_id pageMeta)]\<rparr> else s) metas m)
   = timers m @ map PageAdded (filter (\<lambda>i. i \<notin> P) (map pm_id metas))"
  by (induction metas arbitrary: m) auto

lemma fold_timers_rest:
  "pages (fold (\<lambda>pageMeta s. if pm_id pageMeta \<notin> P
        then s\<lparr>timers := timers s @ [PageAdded (pm_id pageMeta)]\<rparr> else s) metas m) = pages m"
  "emitted (fold (\<lambda>pageMeta s. if pm_id pageMeta \<notin> P
        then s\<lparr>timers := timers s @ [PageAdded (pm_id pageMeta)]\<rparr> else s) metas m) = emitted m"
  "prevPages (fold (\<lambda>pageMeta s. if pm_id pageMeta \<notin> P
        then s\<lparr>timers := timers s @ [PageAdded (pm_id pageMeta)]\<rparr> else s) metas m) = prevPages m"
  by (induction metas arbitrary: m) auto

lemma fold_emitted:
  "emitted (fold (\<lambda>prevPageId s. if Q prevPageId
        then s\<lparr>emitted := emitted s @ [PageRemoved prevPageId]\<rparr> else s) prev m)
   = emitted m @ map PageRemoved (filter Q prev)"
  by (induction prev arbitrary: m) auto

lemma fold_emitted_rest:
  "pages (fold (\<lambda>prevPageId s. if Q prevPageId
        then s\<lparr>emitted := emitted s @ [PageRemoved prevPageId]\<rparr> else s) prev m) = pages m"
  "timers (fold (\<lambda>prevPageId s. if Q prevPageId
        then s\<lparr>emitted := emitted s @ [PageRemoved prevPageId]\<rparr> else s) prev m) = timers m"
  by (induction prev arbitrary: m) auto

lemma set_fold_set_add:
  "set (fold (\<lambda>page ps. set_add (pm_id page) ps) metas acc) = set acc \<union> pm_id ` set metas"
  by (induction metas arbitrary: acc) (auto simp: set_add_def)

lemma find_None_pm: "(find (\<lambda>p. pm_id p = i) metas = None) = (i \<notin> pm_id ` set metas)"
  by (auto simp: find_None_iff)

lemma handlePageEvent_fields:
  "pages (handlePageEvent m) = pages m"
  "timers (handlePageEvent m) = timers m @ map PageAdded (filter (\<lambda>i. i \<notin> set (prevPages m)) (map pm_id (pages m)))"
  "emitted (handlePageEvent m) = emitted m @ map PageRemoved (filter (\<lambda>i. i \<notin> pm_id ` set (pages m)) (prevPages m)) @ [PagesUpdated]"
  "set (prevPages (handlePageEvent m)) = pm_id ` set (pages m)"
  by (simp_all add: handlePageEvent_def Let_def pageMetas_def fold_timers fold_timers_rest
        fold_emitted fold_emitted_rest set_fold_set_add find_None_pm)

lemma handleCommon_fields:
  "pages (handleCommonFieldsEvent m) = pages m"
  "timers (handleCommonFieldsEvent m) = timers m"
  "prevPages (handleCommonFieldsEvent m) = prevPages m"
  "pageSignals (emitted (handleCommonFieldsEvent m)) = pageSignals (emitted m)"
  by (simp_all add: handleCommonFieldsEvent_def pageSignals_def)

lemma handlePageEvent_pageSignals:
  "pageSignals (emitted (handlePageEvent m))
     = pageSignals (emitted m) @ map PageRemoved (filter (\<lambda>i. i \<notin> pm_id ` set (pages m)) (prevPages m))"
proof -
  have "filter isPageSignal (map PageRemoved xs) = map PageRemoved xs" for xs
    by (induction xs) auto
  then show ?thesis by (simp add: handlePageEvent_fields pageSignals_def)
qed

lemma handleEvents_Cons:
  "handleEvents (e # es) m =
     handleEvents es (if touchesPages e then handlePageEvent m
        else if hasKey e ''name'' \<or> hasKey e ''avatar'' then handleCommonFieldsEvent m else m)"
  by (simp add: handleEvents_def)

lemma handleEvents_Nil: "handleEvents [] m = m"
  by (simp add: handleEvents_def)

lemma handleEvents_settled:
  assumes "set (prevPages m) = pm_id ` set (pages m)"
  shows "timers (handleEvents es m) = timers m \<and>
         pageSignals (emitted (handleEvents es m)) = pageSignals (emitted m)"
  using assms
proof (induction es arbitrary: m)
  case Nil
  show ?case by (simp add: handleEvents_Nil)
next
  case (Cons e es)
  show ?case
  proof (cases "touchesPages e")
    case True
    have a: "filter (\<lambda>i. i \<notin> set (prevPages m)) (map pm_id (pages m)) = []"
      using Cons.prems by (auto simp: filter_empty_conv)
    have b: "filter (\<lambda>i. i \<notin> pm_id ` set (pages m)) (prevPages m) = []"
      using Cons.prems by (auto simp: filter_empty_conv)
    have "set (prevPages (handlePageEvent m)) = pm_id ` set (pages (handlePageEvent m))"
      by (simp add: handlePageEvent_fields)
    from Cons.IH [OF this] True show ?thesis
      by (simp add: handleEvents_Cons handlePageEvent_fields(2) handlePageEvent_pageSignals a b)
  next
    case False
    show ?thesis
    proof (cases "hasKey e ''name'' \<or> hasKey e ''avatar''")
      case True
      have "set (prevPages (handleCommonFieldsEvent m)) = pm_id ` set (pages (handleCommonFieldsEvent m))"
        using Cons.prems by (simp add: handleCommon_fields)
      from Cons.IH [OF this] True False show ?thesis
        by (simp add: handleEvents_Cons handleCommon_fields)
    next
      case F2: False
      from Cons.IH [OF Cons.prems] False F2 show ?thesis
        by (simp add: handleEvents_Cons)
    qed
  qed
qed

text \<open>
  C8 (as amended).  For a change batch with at least one event touching the page index,
  the observer queues, for the next scheduling tick, one page-added signal per
  descriptor of the current index whose id is not in the previous id set (in index
  order; so once per id when descriptor ids are distinct), and emits no page-added
  signal synchronously; it emits synchronously one page-removed signal for each id of
  the previous set that no current descriptor carries.
\<close>

theorem handleEvents_page_signals:
  assumes "\<exists>e \<in> set events. touchesPages e"
  shows "timers (handleEvents events m)
           = timers m @ map PageAdded (filter (\<lambda>i. i \<notin> set (prevPages m)) (map pm_id (pages m))) \<and>
         pageSignals (emitted (handleEvents events m))
           = pageSignals (emitted m)
               @ map PageRemoved (filter (\<lambda>i. i \<notin> pm_id ` set (pages m)) (prevPages m))"
  using assms
proof (induction events arbitrary: m)
  case Nil
  then show ?case by simp
next
  case (Cons e es)
  show ?case
  proof (cases "touchesPages e")
    case True
    have "set (prevPages (handlePageEvent m)) = pm_id ` set (pages (handlePageEvent m))"
      by (simp add: handlePageEvent_fields)
    from handleEvents_settled [OF this, of es] True show ?thesis
      by (simp add: handleEvents_Cons handlePageEvent_fields(2) handlePageEvent_pageSignals)
  next
    case False
    with Cons.prems have ex: "\<exists>e \<in> set es. touchesPages e" by simp
    show ?thesis
    proof (cases "hasKey e ''name'' \<or> hasKey e ''avatar''")
      case True
      from Cons.IH [OF ex, of "handleCommonFieldsEvent m"] True False show ?thesis
        by (simp add: handleEvents_Cons handleCommon_fields)
    next
      case F2: False
      from Cons.IH [OF ex, of m] False F2 show ?thesis
        by (simp add: handleEvents_Cons)
    qed
  qed
qed

theorem handleEvents_page_signals_witness:
  "(\<exists>e \<in> set [pagesEvent]. touchesPages e) \<and>
   timers (handleEvents [pagesEvent] (indexMeta [descriptor ''a'', descriptor ''b''] [''b'', ''c'']))
     = [PageAdded ''a''] \<and>
   pageSignals (emitted (handleEvents [pagesEvent]
       (indexMeta [descriptor ''a'', descriptor ''b''] [''b'', ''c''])))
     = [PageRemoved ''c'']"
  using handleEvents_page_signals [of "[pagesEvent]"
      "indexMeta [descriptor ''a'', descriptor ''b''] [''b'', ''c'']"]
  by (simp add: pagesEvent_def touchesPages_def indexMeta_def descriptor_def pageSignals_def)

text \<open>
  Two descriptors with the same new id arrive in one batch: the id is in the current set
  and not in the previous one, and page-added is queued twice for it.
\<close>

theorem handleEvents_duplicate_counterexample:
  "timers (handleEvents [pagesEvent] (indexMeta [descriptor ''a'', descriptor ''a''] []))
     = [PageAdded ''a'', PageAdded ''a'']"
  by (simp add: handleEvents_def pagesEvent_def touchesPages_def handlePageEvent_def pageMetas_def
        indexMeta_def descriptor_def Let_def)

subsection \<open>Page creation\<close>

text \<open>
  C6.  When a store is registered for the id, \<open>createPage\<close> fails with
  AlreadyExistsError.  Otherwise it succeeds, the page index is the old one with the
  descriptor \<open>{id, title: '', createDate}\<close> appended, the registered stores, the flavour
  registry and the version ledger are as before, and page-added is only queued for the
  next tick: as long as the previous id set holds no id that left the index, no page
  signal fires during the call, so no subscriber can construct a store within it.
\<close>

theorem createPage_descriptor_only:
  "(hasPage ws pageId \<longrightarrow> createPage pageId now ws = Inl AlreadyExistsError) \<and>
   (\<not> hasPage ws pageId \<longrightarrow>
      (\<exists>ws'. createPage pageId now ws = Inr ws' \<and>
         pages (meta ws') = pages (meta ws)
            @ [\<lparr>pm_id = pageId, pm_title = '''', pm_createDate = now, pm_ext = []\<rparr>] \<and>
         spaces ws' = spaces ws \<and> flavourMap ws' = flavourMap ws \<and>
         versions (meta ws') = versions (meta ws) \<and>
         timers (meta ws') = timers (meta ws)
            @ map PageAdded (filter (\<lambda>i. i \<notin> set (prevPages (meta ws)))
                 (map pm_id (pages (meta ws)) @ [pageId])) \<and>
         (set (prevPages (meta ws)) \<subseteq> pm_id ` set (pages (meta ws)) \<longrightarrow>
            pageSignals (emitted (meta ws')) = pageSignals (emitted (meta ws)))))"
proof -
  let ?d = "\<lparr>pm_id = pageId, pm_title = '''', pm_createDate = now, pm_ext = []\<rparr>"
  let ?m = "addPageMeta ?d None (meta ws)"
  let ?e = "\<lparr>target = TargetPages, changed_keys = []\<rparr>"
  have m: "pages ?m = pages (meta ws) @ [?d]" "prevPages ?m = prevPages (meta ws)"
    "timers ?m = timers (meta ws)" "emitted ?m = emitted (meta ws)" "versions ?m = versions (meta ws)"
    by (simp_all add: addPageMeta_def)
  have h: "handleEvents [?e] ?m = handlePageEvent ?m"
    by (simp add: handleEvents_def touchesPages_def)
  have v: "versions (handlePageEvent ?m) = versions ?m"
    by (simp add: handlePageEvent_def Let_def fold_emitted_versions fold_timers_versions)
  have r: "set (prevPages (meta ws)) \<subseteq> pm_id ` set (pages (meta ws)) \<Longrightarrow>
      filter (\<lambda>i. i \<noteq> pageId \<and> i \<notin> pm_id ` set (pages (meta ws))) (prevPages (meta ws)) = []"
    by (auto simp: filter_empty_conv)
  show ?thesis
    by (auto simp: createPage_def h v m handlePageEvent_fields(1,2) handlePageEvent_pageSignals r)
qed

theorem createPage_descriptor_only_witness:
  "\<not> hasPage emptyWorkspace ''page0'' \<and>
   hasPage (emptyWorkspace\<lparr>spaces := [(''space:page0'', freshPage)]\<rparr>) ''page0'' \<and>
   createPage ''page0'' 7 (emptyWorkspace\<lparr>spaces := [(''space:page0'', freshPage)]\<rparr>)
     = Inl AlreadyExistsError \<and>
   (\<exists>ws'. createPage ''page0'' 7 emptyWorkspace = Inr ws' \<and>
      pages (meta ws') = [\<lparr>pm_id = ''page0'', pm_title = [], pm_createDate = 7, pm_ext = []\<rparr>] \<and>
      spaces ws' = [] \<and> timers (meta ws') = [PageAdded ''page0''] \<and>
      pageSignals (emitted (meta ws')) = [])"
  using createPage_descriptor_only [of emptyWorkspace "''page0''" 7]
    createPage_descriptor_only [of "emptyWorkspace\<lparr>spaces := [(''space:page0'', freshPage)]\<rparr>"
       "''page0''" 7]
  by (auto simp: hasPage_def emptyWorkspace_def indexMeta_def pageSignals_def)

subsection \<open>Block lookup\<close>

text \<open>
  C10.  For every string id, \<open>getBlockById\<close> returns the model registered under that id
  in the model map when there is one and null (\<open>None\<close>) otherwise; it has no failing
  branch.
\<close>

theorem getBlockById_total:
  "getBlockById p bid = map_of (blockMap p) bid"
  by (simp add: getBlockById_def split: option.splits)

subsection \<open>Initial synchronisation\<close>

lemmas example_defs = storedPage_def freshPage_def pageBlock_def paragraphBlock_def
  affineRegistry_def affineLedger_def ledgerMeta_def

lemmas reconcile_defs = createBlockModel_def needsText_def updModel_def createChildMap_def
  set_add_def jsSet_def getParent_def rootOf_def

lemma sync_storedPage:
  "fst (syncFromExistingDoc (Suc (Suc (Suc 0))) (\<lambda>b. b) affineRegistry affineLedger storedPage)
     = Some (Inr ())"
  by (simp add: example_defs reconcile_defs syncFromExistingDoc_def handleVersion_def
        validateVersion_def editorVersion_def initYBlocks_def Let_def)

text \<open>
  C2 (as amended).  On a store on which a call of \<open>syncFromExistingDoc\<close> has returned
  without error, every further call fails with a StateError and leaves the whole store
  (the block map and the model projection among it) and the workspace metadata as they
  were.
\<close>

theorem syncFromExistingDoc_twice:
  assumes "syncFromExistingDoc fuel tryMigrate fm m p = (Some (Inr ()), m', p')"
  shows "syncFromExistingDoc fuel2 tryMigrate2 fm2 m2 p' = (Some (Inl StateError), m2, p')"
proof -
  have "synced p'"
    using assms
    by (auto simp: syncFromExistingDoc_def Let_def split: if_splits sum.splits prod.splits option.splits)
  then show ?thesis by (simp add: syncFromExistingDoc_def)
qed

theorem syncFromExistingDoc_twice_witness:
  "fst (syncFromExistingDoc (Suc (Suc (Suc 0))) (\<lambda>b. b) affineRegistry affineLedger storedPage)
     = Some (Inr ()) \<and>
   syncFromExistingDoc (Suc (Suc (Suc 0))) (\<lambda>b. b) affineRegistry affineLedger
     (snd (snd (syncFromExistingDoc (Suc (Suc (Suc 0))) (\<lambda>b. b) affineRegistry affineLedger storedPage)))
     = (Some (Inl StateError), affineLedger,
        snd (snd (syncFromExistingDoc (Suc (Suc (Suc 0))) (\<lambda>b. b) affineRegistry affineLedger storedPage)))"
proof -
  obtain r m' p' where
    e: "syncFromExistingDoc (Suc (Suc (Suc 0))) (\<lambda>b. b) affineRegistry affineLedger storedPage = (r, m', p')"
    by (cases "syncFromExistingDoc (Suc (Suc (Suc 0))) (\<lambda>b. b) affineRegistry affineLedger storedPage")
  with sync_storedPage have r: "r = Some (Inr ())" by simp
  from syncFromExistingDoc_twice [OF e [unfolded r]] e r show ?thesis by simp
qed

text \<open>
  A first call that fails leaves the store unsynced: on a stored document whose version
  ledger is empty both the first and the second call fail with ConfigurationError.
\<close>

theorem syncFromExistingDoc_failed_first_counterexample:
  "fst (syncFromExistingDoc (Suc 0) (\<lambda>b. b) affineRegistry (ledgerMeta []) storedPage)
     = Some (Inl ConfigurationError) \<and>
   fst (syncFromExistingDoc (Suc 0) (\<lambda>b. b) affineRegistry (ledgerMeta [])
     (snd (snd (syncFromExistingDoc (Suc 0) (\<lambda>b. b) affineRegistry (ledgerMeta []) storedPage))))
     = Some (Inl ConfigurationError)"
  by (simp add: example_defs syncFromExistingDoc_def handleVersion_def validateVersion_def)

subsection \<open>Read-only mode\<close>

lemma synced_is_sync:
  "snd (snd (syncFromExistingDoc (Suc (Suc (Suc 0))) (\<lambda>b. b) affineRegistry affineLedger storedPage))
     = syncedPage"
  by (simp add: syncedPage_def example_defs reconcile_defs syncFromExistingDoc_def handleVersion_def
        validateVersion_def editorVersion_def initYBlocks_def Let_def)

text \<open>
  The mutation entry points that test the read-only predicate first leave the store as
  it is, up to the count of logged errors: \<open>addBlockByFlavour\<close> throws, the others log
  and return.
\<close>

lemma readonly_guards:
  assumes "readonly p"
  shows "addBlockByFlavour fuel fm flavour props parent idx p = (Some (Inl ReadOnlyError), p)"
    and "moveBlock fuel fm b t atTop p = (Some (Inr ()), p\<lparr>consoleErrors := consoleErrors p + 1\<rparr>)"
    and "updateBlock fuel fm mo cs props p = (Some (Inr ()), p\<lparr>consoleErrors := consoleErrors p + 1\<rparr>)"
    and "updateBlockById fuel fm bid cs props p = (Some (Inr ()), p\<lparr>consoleErrors := consoleErrors p + 1\<rparr>)"
    and "deleteBlock fuel fm b bring p = (Some (Inr ()), p\<lparr>consoleErrors := consoleErrors p + 1\<rparr>)"
    and "deleteBlockById fuel fm bid p = (Some (Inr ()), p\<lparr>consoleErrors := consoleErrors p + 1\<rparr>)"
  using assms
  by (simp_all add: addBlockByFlavour_def moveBlock_def updateBlock_def updateBlockById_def
        deleteBlock_def deleteBlockById_def)

text \<open>
  C5.  The claim wants every mutation entry point to fail or log on a read-only store
  without entering a transaction.  \<open>insertBlock\<close> has no such test of its own: on the
  read-only synchronised example store, inserting a paragraph before block 1 enters a
  transaction and only then fails, with the read-only error of the nested
  \<open>addBlockByFlavour\<close>.  Nothing is written; the transaction count is the only change.
\<close>

theorem insertBlock_readonly_enters_transaction:
  "readonly readonlyPage \<and>
   insertBlock (Suc (Suc 0)) affineRegistry (Some ''affine:paragraph'') None 1 True readonlyPage
     = (Some (Inl ReadOnlyError), readonlyPage\<lparr>transactions := transactions readonlyPage + 1\<rparr>)"
  by (simp add: readonlyPage_def syncedPage_def example_defs insertBlock_def getParent_def rootOf_def
        transact_def childrenOf_def addBlockByFlavour_def eventsOf_def noChanges_def Let_def)

subsection \<open>Committing a transaction\<close>

lemma findIndex_first:
  "x \<notin> set xs \<Longrightarrow> findIndex (\<lambda>i. i = x) (xs @ x # zs) = int (length xs)"
  by (induction xs) (auto simp: Let_def)

lemma findIndex_first_opt:
  "Some x \<notin> set xs \<Longrightarrow> findIndex (\<lambda>c. c = Some x) (xs @ Some x # zs) = int (length xs)"
  by (induction xs) (auto simp: Let_def)

lemma yDelete_at: "yDelete (int (length xs)) (Suc 0) (xs @ x # zs) = Inr (xs @ zs)"
  by (simp add: yDelete_def)

lemma yInsert_at: "yInsert (int (length xs)) c (xs @ zs) = Inr (xs @ c @ zs)"
  by (simp add: yInsert_def)

lemma yInsert_after: "yInsert (int (length xs) + 1) c (xs @ x # zs) = Inr (xs @ x # c @ zs)"
proof -
  have n: "nat (int (length xs) + 1) = Suc (length xs)" by simp
  show ?thesis by (simp add: yInsert_def n)
qed

lemma yInsert_front: "yInsert 0 c ys = Inr (c @ ys)"
  by (simp add: yInsert_def)

lemma childrenOf_setChildren:
  "map_of (yBlocks q) k \<noteq> None \<Longrightarrow>
   childrenOf (setChildren k ys q) k' = (if k' = k then Inr ys else childrenOf q k')"
  by (auto simp: childrenOf_def setChildren_def recordArray_def update_conv' split: option.splits)

lemma childrenOf_Inr_D: "childrenOf q k = Inr ys \<Longrightarrow> map_of (yBlocks q) k \<noteq> None"
  by (auto simp: childrenOf_def split: option.splits)

lemma childrenOf_cong:
  "yBlocks q' = yBlocks q \<Longrightarrow> childrenOf q' k = childrenOf q k"
  by (simp add: childrenOf_def)

lemma setChildren_fields:
  "models (setChildren k ys q) = models q"
  "blockMap (setChildren k ys q) = blockMap q"
  "transactions (setChildren k ys q) = transactions q"
  "inTransaction (setChildren k ys q) = inTransaction q"
  "observers (setChildren k ys q) = observers q"
  "root_slot (setChildren k ys q) = root_slot q"
  by (simp_all add: setChildren_def recordArray_def split: option.splits)

lemma hasModel_cong:
  "yBlocks q' = yBlocks q \<Longrightarrow> blockMap q' = blockMap q \<Longrightarrow> hasModel q' k = hasModel q k"
  by (simp add: hasModel_def split: option.splits)

lemma handle_array_event:
  assumes "hasModel p k"
  shows "\<exists>p'. handleYEvent fuel fm (ChildrenArrayEvent k) p = (Some (Inr ()), p') \<and> sameButModels p p'"
  using assms
  by (auto simp: hasModel_def sameButModels_def updModel_def split: option.splits)

lemma sameButModels_trans: "sameButModels p q \<Longrightarrow> sameButModels q r \<Longrightarrow> sameButModels p r"
  unfolding sameButModels_def by (metis (no_types, lifting) page.surjective page.update_convs(3))

lemma sameButModels_refl: "sameButModels p p"
  by (simp add: sameButModels_def)

lemma sameButModels_D:
  assumes "sameButModels p q"
  shows "yBlocks q = yBlocks p" "blockMap q = blockMap p" "transactions q = transactions p"
proof -
  from assms have e: "q = p\<lparr>models := models q\<rparr>" by (simp add: sameButModels_def)
  show "yBlocks q = yBlocks p" by (subst e) simp
  show "blockMap q = blockMap p" by (subst e) simp
  show "transactions q = transactions p" by (subst e) simp
qed

lemma handleYEvents_arrays:
  assumes "\<forall>k\<in>set ks. hasModel p k"
  shows "\<exists>p'. handleYEvents fuel fm (map ChildrenArrayEvent ks) p = (Some (Inr ()), p')
            \<and> sameButModels p p'"
  using assms
proof (induction ks arbitrary: p)
  case Nil
  show ?case by (simp add: sameButModels_refl)
next
  case (Cons k ks)
  from Cons.prems have "hasModel p k" by simp
  from handle_array_event [OF this, of fuel fm] obtain p1 where
    h: "handleYEvent fuel fm (ChildrenArrayEvent k) p = (Some (Inr ()), p1)" and s: "sameButModels p p1"
    by blast
  have "\<forall>k\<in>set ks. hasModel p1 k"
    using Cons.prems hasModel_cong [OF sameButModels_D(1) [OF s] sameButModels_D(2) [OF s]] by simp
  from Cons.IH [OF this] obtain p' where
    r: "handleYEvents fuel fm (map ChildrenArrayEvent ks) p1 = (Some (Inr ()), p')"
    and s': "sameButModels p1 p'" by blast
  show ?case using h r sameButModels_trans [OF s s'] by simp
qed

lemma handleBlocksKeys_noop:
  assumes "\<forall>(k, a)\<in>set keys. a \<noteq> KeyAdd \<and> (a = KeyDelete \<longrightarrow> k \<notin> fst ` set (blockMap p))"
  shows "handleBlocksKeys fuel fm keys visited p = (Some (Inr ()), p)"
  using assms
proof (induction keys)
  case Nil
  show ?case by simp
next
  case (Cons ka keys)
  obtain k a where ka: "ka = (k, a)" by (cases ka)
  show ?case
  proof (cases a)
    case KeyAdd
    with Cons.prems ka show ?thesis by simp
  next
    case KeyUpdate
    with Cons ka show ?thesis by simp
  next
    case KeyDelete
    with Cons.prems ka have "k \<notin> fst ` set (blockMap p)" by simp
    then have "handleYBlockDelete k p = p" by (simp add: handleYBlockDelete_def)
    with Cons ka KeyDelete show ?thesis by simp
  qed
qed

lemma handleYEvents_eventsOf:
  assumes "quietKeys q" "yBlocks p = yBlocks q" "blockMap p = blockMap q"
  shows "\<exists>p'. handleYEvents fuel fm (eventsOf q) p = (Some (Inr ()), p') \<and> sameButModels p p'"
proof -
  let ?ks = "filter (\<lambda>k. map_of (yBlocks q) k \<noteq> None) (arrayKeys (pending q))"
  have hm: "\<forall>k\<in>set ?ks. hasModel p k"
    using assms by (auto simp: quietKeys_def hasModel_def)
  from handleYEvents_arrays [OF hm, of fuel fm] obtain p' where
    a: "handleYEvents fuel fm (map ChildrenArrayEvent ?ks) p = (Some (Inr ()), p')"
    and s: "sameButModels p p'" by blast
  have b: "handleBlocksKeys fuel fm (topKeys (pending q)) [] p = (Some (Inr ()), p)"
    using assms by (intro handleBlocksKeys_noop) (auto simp: quietKeys_def)
  have e: "eventsOf q = (if topKeys (pending q) = [] then [] else [BlocksEvent (topKeys (pending q))])
      @ map ChildrenArrayEvent ?ks"
    using assms by (simp add: eventsOf_def quietKeys_def)
  show ?thesis using a b s by (auto simp: e)
qed

lemma dispatch_eventsOf:
  assumes "quietKeys q" "yBlocks p = yBlocks q" "blockMap p = blockMap q"
  shows "\<exists>p'. dispatch n fuel fm (eventsOf q) p = (Some (Inr ()), p') \<and> sameButModels p p'"
  using assms(2-)
proof (induction n arbitrary: p)
  case 0
  show ?case by (simp add: sameButModels_refl)
next
  case (Suc n)
  from handleYEvents_eventsOf [OF assms(1) Suc.prems, of fuel fm] obtain p1 where
    h: "handleYEvents fuel fm (eventsOf q) p = (Some (Inr ()), p1)" and s: "sameButModels p p1" by blast
  have f: "yBlocks p1 = yBlocks q" "blockMap p1 = blockMap q"
    using sameButModels_D [OF s] Suc.prems by simp_all
  from Suc.IH [OF f] obtain p' where
    d: "dispatch n fuel fm (eventsOf q) p1 = (Some (Inr ()), p')" and s': "sameButModels p1 p'" by blast
  show ?case using h d sameButModels_trans [OF s s'] by simp
qed

lemma transact_commit:
  assumes "\<not> inTransaction p"
    and "body (p\<lparr>inTransaction := True, transactions := transactions p + 1\<rparr>) = (Some (Inr v), q)"
    and "quietKeys q"
  shows "\<exists>p'. transact fuel fm body p = (Some (Inr v), p')
           \<and> sameButModels (q\<lparr>inTransaction := False, pending := noChanges\<rparr>) p'"
proof -
  let ?p2 = "q\<lparr>inTransaction := False, pending := noChanges\<rparr>"
  have "\<exists>p'. dispatch (observers ?p2) fuel fm (eventsOf q) ?p2 = (Some (Inr ()), p') \<and> sameButModels ?p2 p'"
    by (rule dispatch_eventsOf [OF assms(3)]) simp_all
  then obtain p' where d: "dispatch (observers ?p2) fuel fm (eventsOf q) ?p2 = (Some (Inr ()), p')"
    and s: "sameButModels ?p2 p'" by blast
  show ?thesis
  proof (cases "eventsOf q = []")
    case True
    then show ?thesis using assms(1,2) by (simp add: transact_def sameButModels_refl)
  next
    case False
    then show ?thesis using assms(1,2) d s by (simp add: transact_def)
  qed
qed

lemma hasModel_setChildren: "hasModel (setChildren k ys q) k' = hasModel q k'"
  by (auto simp: hasModel_def setChildren_def recordArray_def update_conv' split: option.splits)

lemmas tree_defs = treePage_def treeDoc_def leafModel_def freshPage_def pageBlock_def
  paragraphBlock_def affineRegistry_def affineLedger_def ledgerMeta_def

lemma treePage_is_sync:
  "syncFromExistingDoc (Suc (Suc (Suc (Suc 0)))) (\<lambda>b. b) affineRegistry affineLedger treeDoc
     = (Some (Inr ()), affineLedger, treePage)"
  by (simp add: tree_defs reconcile_defs syncFromExistingDoc_def handleVersion_def
        validateVersion_def editorVersion_def initYBlocks_def Let_def)

subsection \<open>Moving a block\<close>

text \<open>
  Moving a block next to another one.  On a writable, idle store let \<open>b\<close> have parent
  \<open>pa\<close> and \<open>t\<close> have parent \<open>pb\<close>, let the id of \<open>b\<close> occur in the children list of
  \<open>pa\<close>, and let the id of \<open>t\<close> occur in the children list of \<open>pb\<close> once \<open>b\<close> has been
  taken out (so \<open>t\<close> is not \<open>b\<close>).  Then \<open>moveBlock\<close> returns, the first occurrence of \<open>b\<close>
  is gone from the list of \<open>pa\<close>, the list of \<open>pb\<close> holds \<open>b\<close> immediately before the first
  occurrence of \<open>t\<close> (\<open>atTop\<close>) or immediately after it, and removal and insertion are
  the writes of one and the same transaction: the transaction count has grown by one.
\<close>

theorem moveBlock_adjacent:
  assumes w: "\<not> readonly p" "idle p"
    and pa: "getParent fuel p b = Some (Some pa)"
    and pb: "getParent fuel p t = Some (Some pb)"
    and ya: "childrenOf p (m_id (models p ! pa)) = Inr (xs @ m_id (models p ! b) # zs)"
            "m_id (models p ! b) \<notin> set xs"
    and yb: "childrenOf p (m_id (models p ! pb)) = Inr yB"
            "(if m_id (models p ! pa) = m_id (models p ! pb) then xs @ zs else yB)
               = pre @ m_id (models p ! t) # post"
            "m_id (models p ! t) \<notin> set pre"
    and hm: "hasModel p (m_id (models p ! pa))" "hasModel p (m_id (models p ! pb))"
  shows "\<exists>p'. moveBlock fuel fm b t atTop p = (Some (Inr ()), p') \<and>
           childrenOf p' (m_id (models p ! pb))
             = Inr (if atTop then pre @ m_id (models p ! b) # m_id (models p ! t) # post
                    else pre @ m_id (models p ! t) # m_id (models p ! b) # post) \<and>
           (m_id (models p ! pa) \<noteq> m_id (models p ! pb) \<longrightarrow>
              childrenOf p' (m_id (models p ! pa)) = Inr (xs @ zs)) \<and>
           transactions p' = transactions p + 1"
proof -
  define pidA where "pidA = m_id (models p ! pa)"
  define pidB where "pidB = m_id (models p ! pb)"
  define bid where "bid = m_id (models p ! b)"
  define tid where "tid = m_id (models p ! t)"
  define new where "new = (if atTop then pre @ bid # tid # post else pre @ tid # bid # post)"
  note ids = pidA_def [symmetric] pidB_def [symmetric] bid_def [symmetric] tid_def [symmetric]
  define q0 where "q0 = p\<lparr>inTransaction := True, transactions := transactions p + 1\<rparr>"
  define q1 where "q1 = setChildren pidA (xs @ zs) q0"
  define q2 where "q2 = setChildren pidB new q1"
  let ?body = "\<lambda>q. case childrenOf q (m_id (models q ! pa)) of
                      Inl e \<Rightarrow> (Some (Inl e), q)
                    | Inr yChildrenA \<Rightarrow>
                       (let idx = findIndex (\<lambda>i. i = m_id (models q ! b)) yChildrenA in
                        case yDelete idx 1 yChildrenA of
                          Inl e \<Rightarrow> (Some (Inl e), q)
                        | Inr ya \<Rightarrow>
                           (let q1 = setChildren (m_id (models q ! pa)) ya q in
                            case childrenOf q1 (m_id (models q1 ! pb)) of
                              Inl e \<Rightarrow> (Some (Inl e), q1)
                            | Inr yChildrenB \<Rightarrow>
                               (let nextIdx = findIndex (\<lambda>i. i = m_id (models q1 ! t)) yChildrenB in
                                case yInsert (if atTop then nextIdx else nextIdx + 1)
                                       [m_id (models q1 ! b)] yChildrenB of
                                  Inl e \<Rightarrow> (Some (Inl e), q1)
                                | Inr yb \<Rightarrow>
                                    (Some (Inr ()), setChildren (m_id (models q1 ! pb)) yb q1))))"
  have m0: "models q0 = models p" "yBlocks q0 = yBlocks p" "blockMap q0 = blockMap p"
    "pending q0 = noChanges" "transactions q0 = transactions p + 1"
    using w(2) by (simp_all add: q0_def idle_def)
  have m1: "models q1 = models p" "blockMap q1 = blockMap p" "transactions q1 = transactions p + 1"
    by (simp_all add: q1_def setChildren_fields m0)
  have m2: "models q2 = models p" "blockMap q2 = blockMap p" "transactions q2 = transactions p + 1"
    by (simp_all add: q2_def setChildren_fields m1)
  have cA: "childrenOf q0 pidA = Inr (xs @ bid # zs)"
    using ya(1) by (simp add: childrenOf_cong [OF m0(2)] ids)
  have exA: "map_of (yBlocks q0) pidA \<noteq> None"
    using childrenOf_Inr_D [OF cA] .
  have cB0: "childrenOf q0 pidB = Inr yB"
    using yb(1) by (simp add: childrenOf_cong [OF m0(2)] ids)
  have c1: "childrenOf q1 k = (if k = pidA then Inr (xs @ zs) else childrenOf q0 k)" for k
    unfolding q1_def by (rule childrenOf_setChildren [OF exA])
  have cB: "childrenOf q1 pidB = Inr (pre @ tid # post)"
    using yb(2) cB0 by (auto simp: c1 ids split: if_splits)
  have exB: "map_of (yBlocks q1) pidB \<noteq> None"
    using childrenOf_Inr_D [OF cB] .
  have c2: "childrenOf q2 k = (if k = pidB then Inr new else childrenOf q1 k)" for k
    unfolding q2_def by (rule childrenOf_setChildren [OF exB])
  have fi: "findIndex (\<lambda>i. i = bid) (xs @ bid # zs) = int (length xs)"
    using ya(2) by (simp add: findIndex_first ids)
  have ft: "findIndex (\<lambda>i. i = tid) (pre @ tid # post) = int (length pre)"
    using yb(3) by (simp add: findIndex_first ids)
  have ins: "yInsert (if atTop then int (length pre) else int (length pre) + 1) [bid] (pre @ tid # post)
      = Inr new"
    using yInsert_at [of pre "[bid]" "tid # post"] yInsert_after [of pre "[bid]" tid post]
    by (simp add: new_def)
  have body: "?body q0 = (Some (Inr ()), q2)"
    by (simp add: m0 ids cA fi yDelete_at Let_def q1_def [symmetric] m1 cB ft ins q2_def [symmetric])
  have pend: "pending q2 = \<lparr>topKeys = [], mapKeys = [], arrayKeys = set_add pidB (set_add pidA [])\<rparr>"
    using exA exB m0(4)
    by (auto simp: q2_def q1_def setChildren_def recordArray_def noChanges_def split: option.splits)
  have hmq: "hasModel q2 pidA" "hasModel q2 pidB"
    using hm by (simp_all add: q2_def q1_def hasModel_setChildren ids hasModel_cong [OF m0(2,3)])
  have quiet: "quietKeys q2"
    using hmq by (auto simp: quietKeys_def pend set_add_def)
  have "\<exists>p'. transact fuel fm ?body p = (Some (Inr ()), p')
           \<and> sameButModels (q2\<lparr>inTransaction := False, pending := noChanges\<rparr>) p'"
  proof (rule transact_commit [where q = q2])
    show "\<not> inTransaction p" using w(2) by (simp add: idle_def)
    show "?body (p\<lparr>inTransaction := True, transactions := transactions p + 1\<rparr>) = (Some (Inr ()), q2)"
      using body unfolding q0_def .
    show "quietKeys q2" by (rule quiet)
  qed
  then obtain p' where
    t: "transact fuel fm ?body p = (Some (Inr ()), p')"
    and s: "sameButModels (q2\<lparr>inTransaction := False, pending := noChanges\<rparr>) p'"
    by blast
  have mv: "moveBlock fuel fm b t atTop p = transact fuel fm ?body p"
    using w(1) pa pb by (simp add: moveBlock_def)
  have y: "yBlocks p' = yBlocks q2" "transactions p' = transactions p + 1"
    using sameButModels_D [OF s] by (simp_all add: m2)
  have r1: "childrenOf p' pidB = Inr new"
    by (simp add: childrenOf_cong [OF y(1)] c2)
  have r2: "pidA \<noteq> pidB \<Longrightarrow> childrenOf p' pidA = Inr (xs @ zs)"
    by (simp add: childrenOf_cong [OF y(1)] c2 c1)
  show ?thesis
    using mv t r1 r2 y(2) by (auto simp: ids new_def)
qed

theorem moveBlock_adjacent_witness:
  "\<not> readonly treePage \<and> idle treePage \<and>
   getParent (Suc (Suc (Suc 0))) treePage 1 = Some (Some 0) \<and>
   getParent (Suc (Suc (Suc 0))) treePage 5 = Some (Some 0) \<and>
   childrenOf treePage ''0'' = Inr [''1'', ''2'', ''3''] \<and>
   hasModel treePage ''0'' \<and>
   (\<exists>p'. moveBlock (Suc (Suc (Suc 0))) affineRegistry 1 5 False treePage = (Some (Inr ()), p') \<and>
         childrenOf p' ''0'' = Inr [''2'', ''3'', ''1''] \<and> transactions p' = 1)"
  using moveBlock_adjacent [where p = treePage and fuel = "Suc (Suc (Suc 0))" and b = 1 and t = 5
      and pa = 0 and pb = 0 and xs = "[]" and zs = "[''2'', ''3'']" and yB = "[''1'', ''2'', ''3'']"
      and pre = "[''2'']" and post = "[]" and fm = affineRegistry and atTop = False]
  by (simp add: tree_defs idle_def noChanges_def getParent_def rootOf_def childrenOf_def hasModel_def)

text \<open>
  C9.  The target's position is looked up after the block has been taken out of the
  list, and the result of the lookup is not tested.  Moving block \<open>2\<close>, the second child
  of the root, to the place after itself finds no target (index \<open>-1\<close>) and inserts at
  \<open>-1 + 1\<close>: the block ends up at the front of the list, \<open>[2, 1, 3]\<close>, where it is
  adjacent to nothing it was moved next to, instead of staying between \<open>1\<close> and \<open>3\<close>.
  The call reports no error and uses one transaction.
\<close>

theorem moveBlock_self_moves_to_front:
  "\<not> readonly treePage \<and>
   getParent (Suc (Suc (Suc 0))) treePage 2 = Some (Some 0) \<and>
   childrenOf treePage ''0'' = Inr [''1'', ''2'', ''3''] \<and>
   fst (moveBlock (Suc (Suc (Suc 0))) affineRegistry 2 2 False treePage) = Some (Inr ()) \<and>
   childrenOf (snd (moveBlock (Suc (Suc (Suc 0))) affineRegistry 2 2 False treePage)) ''0''
     = Inr [''2'', ''1'', ''3''] \<and>
   transactions (snd (moveBlock (Suc (Suc (Suc 0))) affineRegistry 2 2 False treePage)) = 1"
  by code_simp

subsection \<open>Deleting a block\<close>

lemma updModel_fields:
  "yBlocks (updModel r f p) = yBlocks p"
  "blockMap (updModel r f p) = blockMap p"
  "transactions (updModel r f p) = transactions p"
  "inTransaction (updModel r f p) = inTransaction p"
  "pending (updModel r f p) = pending p"
  "readonly (updModel r f p) = readonly p"
  by (simp_all add: updModel_def)

lemma m_id_updModel:
  assumes "\<And>m. m_id (f m) = m_id m"
  shows "m_id (models (updModel r f p) ! k) = m_id (models p ! k)"
proof (cases "r < length (models p)")
  case True
  then show ?thesis using assms by (cases "k = r") (simp_all add: updModel_def)
next
  case False
  then have "(models p)[r := f (models p ! r)] = models p" by (simp add: list_update_beyond)
  then show ?thesis by (simp add: updModel_def)
qed

lemma m_children_updModel_other:
  "k \<noteq> r \<Longrightarrow> m_children (models (updModel r f p) ! k) = m_children (models p ! k)"
  by (simp add: updModel_def)

lemma childIds_defined:
  "childIds q (map Some cs) = Inr (map (\<lambda>c. m_id (models q ! c)) cs)"
  by (induction cs) simp_all

lemma childIds_cong_ids:
  assumes "\<And>k. m_id (models q' ! k) = m_id (models q ! k)"
  shows "childIds q' cs = childIds q cs"
  using assms by (induction q cs rule: childIds.induct) (simp_all split: sum.splits)

lemma transact_commit_ex:
  assumes "\<not> inTransaction p"
    and "body (p\<lparr>inTransaction := True, transactions := transactions p + 1\<rparr>) = (Some (Inr v), q)"
    and "quietKeys q"
    and "\<And>p'. sameButModels (q\<lparr>inTransaction := False, pending := noChanges\<rparr>) p' \<Longrightarrow> Q p'"
  shows "\<exists>p'. transact fuel fm body p = (Some (Inr v), p') \<and> Q p'"
  using transact_commit [where body = body and p = p and q = q and v = v and fuel = fuel and fm = fm]
    assms by blast

lemma deleteKey_fields:
  "models (deleteKey k q) = models q"
  "blockMap (deleteKey k q) = blockMap q"
  "transactions (deleteKey k q) = transactions q"
  "map_of (yBlocks (deleteKey k q)) k' = (if k' = k then None else map_of (yBlocks q) k')"
  by (auto simp: deleteKey_def recordTop_def delete_conv')

lemma deleteKey_pending:
  "pending q = noChanges \<Longrightarrow>
   pending (deleteKey k q) = (if map_of (yBlocks q) k = None then noChanges
      else \<lparr>topKeys = [(k, KeyDelete)], mapKeys = [], arrayKeys = []\<rparr>)"
  by (simp add: deleteKey_def recordTop_def noChanges_def)

lemma yBlocks_setChildren_other:
  "k' \<noteq> k \<Longrightarrow> map_of (yBlocks (setChildren k ys q)) k' = map_of (yBlocks q) k'"
  by (simp add: setChildren_def recordArray_def update_conv' split: option.splits)

lemma setChildren_pending:
  "map_of (yBlocks q) k \<noteq> None \<Longrightarrow>
   pending (setChildren k ys q) = (pending q)\<lparr>arrayKeys := set_add k (arrayKeys (pending q))\<rparr>"
  by (auto simp: setChildren_def recordArray_def split: option.splits)

lemma setChildren_exists:
  "map_of (yBlocks q) k' \<noteq> None \<Longrightarrow> map_of (yBlocks (setChildren k ys q)) k' \<noteq> None"
  by (auto simp: setChildren_def recordArray_def update_conv' split: option.splits)

text \<open>
  C3 (as amended).  Take a writable store at rest: no transaction is running and no
  change awaits its events.  Let the parent lookup return for block \<open>b\<close> a block \<open>pr\<close>
  other than \<open>b\<close>, with an id other than the id of \<open>b\<close>, and let every entry of the
  children of \<open>b\<close> be a block: \<open>c1, ..., cn\<close>, for any \<open>n\<close>.  Let the model of \<open>pr\<close> be in
  step with the replicated block of \<open>pr\<close>: the block stored under the id of \<open>pr\<close> carries
  that id, the id is a key of the model map, and the stored children list holds the id
  of \<open>b\<close> at the position at which the children of the model of \<open>pr\<close> first hold \<open>b\<close>.
  Then \<open>deleteBlock\<close> with \<open>bringChildrenTo: 'parent'\<close> returns; the id of \<open>b\<close> is no
  longer a key of the replicated block map nor of the model map; the children list of
  \<open>pr\<close> is the ids of \<open>c1, ..., cn\<close>, in their order, followed by the former list without
  that entry of \<open>b\<close>; and the writes of the call are one transaction: the transaction
  count has grown by one.
\<close>

theorem deleteBlock_bring_to_parent:
  assumes w: "\<not> readonly p" "idle p"
    and par: "getParent fuel p b = Some (Some pr)"
    and neq: "b \<noteq> pr" "m_id (models p ! b) \<noteq> m_id (models p ! pr)"
    and kids: "m_children (models p ! b) = map Some cs"
    and cur: "m_children (models p ! pr) = ms @ Some b # ns" "Some b \<notin> set ms"
    and ych: "childrenOf p (m_id (models p ! pr)) = Inr (ysl @ m_id (models p ! b) # ysr)"
             "length ysl = length ms"
    and hm: "hasModel p (m_id (models p ! pr))" "ownId p (m_id (models p ! pr))"
  shows "\<exists>p'. deleteBlock fuel fm b BringToParent p = (Some (Inr ()), p') \<and>
           map_of (yBlocks p') (m_id (models p ! b)) = None \<and>
           map_of (blockMap p') (m_id (models p ! b)) = None \<and>
           childrenOf p' (m_id (models p ! pr))
             = Inr (map (\<lambda>c. m_id (models p ! c)) cs @ ysl @ ysr) \<and>
           transactions p' = transactions p + 1"
proof -
  define bid where "bid = m_id (models p ! b)"
  define pid where "pid = m_id (models p ! pr)"
  define kidIds where "kidIds = map (\<lambda>c. m_id (models p ! c)) cs"
  note ids = bid_def [symmetric] pid_def [symmetric]
  define index where "index = int (length ms)"
  define p3 where "p3 = detachModel b (Some pr) index BringToParent p"
  define q0 where "q0 = p3\<lparr>inTransaction := True, transactions := transactions p3 + 1\<rparr>"
  define q1 where "q1 = deleteKey bid q0"
  define q2 where "q2 = updModel b (\<lambda>m. m\<lparr>m_disposed := True\<rparr>) q1"
  define q3 where "q3 = setChildren pid (ysl @ ysr) q2"
  define q4 where "q4 = (if kidIds = [] then q3 else setChildren pid (kidIds @ ysl @ ysr) q3)"
  have idx: "findIndex (\<lambda>c. c = Some b) (m_children (models p ! pr)) = index"
    using cur by (simp add: findIndex_first_opt index_def)
  have ipos: "index > -1" by (simp add: index_def)
  \<comment> \<open>the model objects after the first phase\<close>
  have p3_id: "m_id (models p3 ! k) = m_id (models p ! k)" for k
    by (simp add: p3_def detachModel_def Let_def ipos m_id_updModel)
  have p3_kids: "m_children (models p3 ! b) = map Some cs"
    using neq(1) kids by (simp add: p3_def detachModel_def Let_def ipos m_children_updModel_other)
  have p3_f: "yBlocks p3 = yBlocks p" "blockMap p3 = AList.delete bid (blockMap p)"
    "transactions p3 = transactions p" "inTransaction p3 = inTransaction p" "pending p3 = pending p"
    by (simp_all add: p3_def detachModel_def Let_def ipos updModel_fields m_id_updModel ids)
  have q0_f: "models q0 = models p3" "yBlocks q0 = yBlocks p" "blockMap q0 = AList.delete bid (blockMap p)"
    "transactions q0 = transactions p + 1" "pending q0 = noChanges"
    using w(2) by (simp_all add: q0_def p3_f idle_def)
  have q1_f: "models q1 = models p3" "blockMap q1 = AList.delete bid (blockMap p)"
    "transactions q1 = transactions p + 1"
    "map_of (yBlocks q1) k = (if k = bid then None else map_of (yBlocks p) k)" for k
    by (simp_all add: q1_def deleteKey_fields q0_f)
  have q1_p: "pending q1 = (if map_of (yBlocks p) bid = None then noChanges
      else \<lparr>topKeys = [(bid, KeyDelete)], mapKeys = [], arrayKeys = []\<rparr>)"
    by (simp add: q1_def deleteKey_pending [OF q0_f(5)] q0_f)
  have q2_id: "m_id (models q2 ! k) = m_id (models p ! k)" for k
    by (simp add: q2_def m_id_updModel q1_f p3_id)
  have q2_f: "yBlocks q2 = yBlocks q1" "blockMap q2 = AList.delete bid (blockMap p)"
    "transactions q2 = transactions p + 1" "pending q2 = pending q1"
    by (simp_all add: q2_def updModel_fields q1_f)
  obtain yP where yP: "map_of (yBlocks p) pid = Some yP" "sys_children yP = Some (ysl @ bid # ysr)"
    using ych(1) by (auto simp: childrenOf_def ids split: option.splits)
  have pb: "pid \<noteq> bid" using neq(2) by (simp add: ids)
  have yP2: "map_of (yBlocks q2) pid = Some yP"
    using pb by (simp add: q2_f q1_f yP)
  have ex2: "map_of (yBlocks q2) pid \<noteq> None" using yP2 by simp
  have c3: "childrenOf q3 k = (if k = pid then Inr (ysl @ ysr) else childrenOf q2 k)" for k
    unfolding q3_def by (rule childrenOf_setChildren [OF ex2])
  have ex3: "map_of (yBlocks q3) pid \<noteq> None"
    unfolding q3_def by (rule setChildren_exists [OF ex2])
  have del: "yDelete index (Suc 0) (ysl @ bid # ysr) = Inr (ysl @ ysr)"
    using yDelete_at [of ysl bid ysr] ych(2) by (simp add: index_def)
  have cids: "childIds q1 (m_children (models q1 ! b)) = Inr kidIds"
    by (simp add: q1_f p3_kids childIds_defined p3_id kidIds_def)
  have body: "deleteBlockTransaction fuel fm b (Some pr) index BringToParent q0 = (Some (Inr ()), q4)"
    by (simp add: deleteBlockTransaction_def Let_def q0_f p3_id ids q1_def [symmetric] cids
          q2_def [symmetric] q2_id yP2 yP ipos del q3_def [symmetric] c3 yInsert_front q4_def)
  \<comment> \<open>what the commit has to dispatch\<close>
  have q4_y: "map_of (yBlocks q4) bid = None"
    using pb by (simp add: q4_def q3_def yBlocks_setChildren_other q2_f q1_f)
  have q4_f: "blockMap q4 = AList.delete bid (blockMap p)" "transactions q4 = transactions p + 1"
    by (simp_all add: q4_def q3_def setChildren_fields q2_f)
  have q4_c: "childrenOf q4 pid = Inr (kidIds @ ysl @ ysr)"
    by (simp add: q4_def childrenOf_setChildren [OF ex3] c3)
  have q4_p: "mapKeys (pending q4) = []" "set (arrayKeys (pending q4)) = {pid}"
    "set (topKeys (pending q4)) \<subseteq> {(bid, KeyDelete)}"
    by (auto simp: q4_def q3_def setChildren_pending [OF ex2] setChildren_pending [OF ex3 [unfolded q3_def]]
          q2_f q1_p noChanges_def set_add_def)
  have sid: "sys_id yP = pid" using hm(2) yP(1) by (simp add: ownId_def ids)
  have hp: "map_of (blockMap p) pid \<noteq> None" using hm(1) yP(1) sid by (simp add: hasModel_def ids)
  have "hasModel q2 pid"
    using pb hp by (simp add: hasModel_def yP2 sid q2_f(2) delete_conv')
  then have h4: "hasModel q4 pid"
    by (simp add: q4_def q3_def hasModel_setChildren)
  have nd: "bid \<notin> fst ` set (AList.delete bid (blockMap p))" by (rule delete_notin_dom)
  have tk: "\<And>k a. (k, a) \<in> set (topKeys (pending q4)) \<Longrightarrow> k = bid \<and> a = KeyDelete"
    using q4_p(3) by auto
  have quiet: "quietKeys q4"
    unfolding quietKeys_def using q4_p(1,2) h4 nd tk by (auto simp: q4_f)
  have dl: "deleteBlock fuel fm b BringToParent p
      = transact fuel fm (deleteBlockTransaction fuel fm b (Some pr) index BringToParent) p3"
    using w(1) par by (simp add: deleteBlock_def idx p3_def)
  have "\<exists>p'. transact fuel fm (deleteBlockTransaction fuel fm b (Some pr) index BringToParent) p3
           = (Some (Inr ()), p') \<and>
         (map_of (yBlocks p') bid = None \<and> map_of (blockMap p') bid = None \<and>
          childrenOf p' pid = Inr (kidIds @ ysl @ ysr) \<and> transactions p' = transactions p + 1)"
  proof (rule transact_commit_ex [where q = q4])
    show "\<not> inTransaction p3" using w(2) by (simp add: p3_f idle_def)
    show "deleteBlockTransaction fuel fm b (Some pr) index BringToParent
            (p3\<lparr>inTransaction := True, transactions := transactions p3 + 1\<rparr>) = (Some (Inr ()), q4)"
      using body unfolding q0_def .
    show "quietKeys q4" by (rule quiet)
  next
    fix p' assume s: "sameButModels (q4\<lparr>inTransaction := False, pending := noChanges\<rparr>) p'"
    have y: "yBlocks p' = yBlocks q4" "blockMap p' = blockMap q4" "transactions p' = transactions q4"
      using sameButModels_D [OF s] by simp_all
    show "map_of (yBlocks p') bid = None \<and> map_of (blockMap p') bid = None \<and>
          childrenOf p' pid = Inr (kidIds @ ysl @ ysr) \<and> transactions p' = transactions p + 1"
      by (simp add: y q4_y q4_f delete_conv' childrenOf_cong [OF y(1)] q4_c)
  qed
  then show ?thesis by (simp add: dl ids kidIds_def)
qed

theorem deleteBlock_bring_to_parent_witness:
  "\<not> readonly treePage \<and> idle treePage \<and>
   getParent (Suc (Suc (Suc 0))) treePage 2 = Some (Some 0) \<and>
   m_children (models treePage ! 2) = [Some 3, Some 4] \<and>
   m_children (models treePage ! 0) = [Some 1, Some 2, Some 5] \<and>
   childrenOf treePage ''0'' = Inr [''1'', ''2'', ''3''] \<and>
   hasModel treePage ''0'' \<and> ownId treePage ''0'' \<and>
   (\<exists>p'. deleteBlock (Suc (Suc (Suc 0))) affineRegistry 2 BringToParent treePage = (Some (Inr ()), p') \<and>
         map_of (yBlocks p') ''2'' = None \<and> map_of (blockMap p') ''2'' = None \<and>
         childrenOf p' ''0'' = Inr [''4'', ''5'', ''1'', ''3''] \<and> transactions p' = 1)"
  using deleteBlock_bring_to_parent [where p = treePage and fuel = "Suc (Suc (Suc 0))" and b = 2
      and pr = 0 and cs = "[3, 4]" and ms = "[Some 1]" and ns = "[Some 5]" and ysl = "[''1'']"
      and ysr = "[''3'']" and fm = affineRegistry]
  by (simp add: tree_defs idle_def noChanges_def getParent_def rootOf_def childrenOf_def hasModel_def
        ownId_def)

text \<open>
  Two stores on which block \<open>2\<close>, with children \<open>4\<close> and \<open>5\<close> and the root as its parent,
  is not taken out of the children list of the root.  On the read-only store the call
  logs and returns, and nothing is written.  The other store is writable and at rest, but
  the model of the root is out of step with its replicated block: adding a block of an
  unregistered flavour at the front of the root has written the list \<open>[6, 1, 2, 3]\<close> and
  failed before the models were brought up to date, so that the model of the root still
  holds block \<open>2\<close> at position 1.  There \<open>deleteBlock\<close> deletes the entry at position 1,
  which is block \<open>1\<close>, and the id of block \<open>2\<close> stays in the list.
\<close>

theorem deleteBlock_bring_to_parent_counterexample:
  "readonly readonlyTree \<and>
   m_children (models readonlyTree ! 2) = [Some 3, Some 4] \<and>
   getParent (Suc (Suc (Suc 0))) readonlyTree 2 = Some (Some 0) \<and>
   fst (deleteBlock (Suc (Suc (Suc 0))) affineRegistry 2 BringToParent readonlyTree) = Some (Inr ()) \<and>
   childrenOf (snd (deleteBlock (Suc (Suc (Suc 0))) affineRegistry 2 BringToParent readonlyTree)) ''0''
     = Inr [''1'', ''2'', ''3''] \<and>
   map_of (blockMap (snd (deleteBlock (Suc (Suc (Suc 0))) affineRegistry 2 BringToParent readonlyTree))) ''2''
     = Some 2 \<and>
   \<not> readonly staleTree \<and> idle staleTree \<and>
   m_children (models staleTree ! 2) = [Some 3, Some 4] \<and>
   getParent (Suc (Suc (Suc 0))) staleTree 2 = Some (Some 0) \<and>
   m_children (models staleTree ! 0) = [Some 1, Some 2, Some 5] \<and>
   childrenOf staleTree ''0'' = Inr [''6'', ''1'', ''2'', ''3''] \<and>
   fst (deleteBlock (Suc (Suc (Suc 0))) affineRegistry 2 BringToParent staleTree) = Some (Inr ()) \<and>
   childrenOf (snd (deleteBlock (Suc (Suc (Suc 0))) affineRegistry 2 BringToParent staleTree)) ''0''
     = Inr [''4'', ''5'', ''6'', ''2'', ''3'']"
  by code_simp

subsection \<open>Adding a block\<close>

text \<open>
  C4.  Before its transaction \<open>addBlockByFlavour\<close> tests the flavour for emptiness only;
  whether the flavour is registered is tested by the observer that builds the model,
  once the transaction has committed.  On the synchronised, writable tree store the
  call with the unregistered flavour \<open>affine:embed\<close>, parent \<open>2\<close> and index 1 does fail,
  with the observer's error, but by then the block is written: the replicated block map
  holds block \<open>6\<close> of flavour \<open>affine:embed\<close>, the children list of block \<open>2\<close> holds its
  id at index 1, one transaction is spent and an id consumed, and no model of block \<open>6\<close>
  exists.
\<close>

theorem addBlockByFlavour_unregistered_commits:
  "\<not> readonly treePage \<and>
   map_of affineRegistry ''affine:embed'' = None \<and>
   map_of (yBlocks treePage) ''6'' = None \<and>
   childrenOf treePage ''2'' = Inr [''4'', ''5''] \<and>
   fst (addBlockByFlavour (Suc (Suc (Suc 0))) affineRegistry ''affine:embed'' []
          (ParentId ''2'') (Some 1) treePage)
     = Some (Inl (FlavourNotRegisteredError ''affine:embed'')) \<and>
   map_of (yBlocks (snd (addBlockByFlavour (Suc (Suc (Suc 0))) affineRegistry ''affine:embed'' []
                           (ParentId ''2'') (Some 1) treePage))) ''6''
     = Some \<lparr>sys_id = ''6'', sys_flavour = ''affine:embed'', sys_children = Some [],
             other_fields = []\<rparr> \<and>
   childrenOf (snd (addBlockByFlavour (Suc (Suc (Suc 0))) affineRegistry ''affine:embed'' []
                      (ParentId ''2'') (Some 1) treePage)) ''2''
     = Inr [''4'', ''6'', ''5''] \<and>
   map_of (blockMap (snd (addBlockByFlavour (Suc (Suc (Suc 0))) affineRegistry ''affine:embed'' []
                            (ParentId ''2'') (Some 1) treePage))) ''6'' = None \<and>
   transactions (snd (addBlockByFlavour (Suc (Suc (Suc 0))) affineRegistry ''affine:embed'' []
                        (ParentId ''2'') (Some 1) treePage)) = 1 \<and>
   idCalls (snd (addBlockByFlavour (Suc (Suc (Suc 0))) affineRegistry ''affine:embed'' []
                   (ParentId ''2'') (Some 1) treePage)) = 7"
  by code_simp

end
